theory Spec2Isabelle
  imports Main "HOL-Library.Word" "HOL-Library.AList"
begin

section \<open>Text and bytes\<close>

text \<open>
  A Python \<open>str\<close> is a sequence of Unicode code points and a \<open>bytes\<close> object a
  sequence of octets. Code points are natural numbers (a valid one is below
  \<open>0x110000\<close>), octets are 8-bit words. Literals of the source are ASCII and are
  written through \<open>cps\<close>.
\<close>

type_synonym pystr = "nat list"
type_synonym byte = "8 word"
type_synonym bytes = "byte list"

definition cps :: "string \<Rightarrow> pystr" where
  "cps s = map of_char s"

text \<open>\<open>a + ':' + b\<close>, the shape of every f-string of the wire messages.\<close>

definition colon :: nat where
  "colon = 58"

definition join_colon :: "pystr \<Rightarrow> pystr \<Rightarrow> pystr" where
  "join_colon a b = a @ colon # b"

text \<open>Truthiness of a value that is \<open>None\<close> or a string: \<open>None\<close> and \<open>''\<close> are falsy.\<close>

fun truthy :: "pystr option \<Rightarrow> bool" where
  "truthy None = False"
| "truthy (Some s) = (s \<noteq> [])"

section \<open>Constants of common/config.py\<close>

definition MAX_MESSAGE_SIZE :: nat where
  "MAX_MESSAGE_SIZE = 10 * 1024 * 1024"

definition MSG_REGISTER :: pystr where "MSG_REGISTER = cps ''REGISTER''"
definition MSG_CMD :: pystr where "MSG_CMD = cps ''CMD''"
definition MSG_RESULT :: pystr where "MSG_RESULT = cps ''RESULT''"
definition MSG_TOKEN_REQUEST :: pystr where "MSG_TOKEN_REQUEST = cps ''TOKEN_REQUEST''"
definition MSG_TOKEN_STATUS :: pystr where "MSG_TOKEN_STATUS = cps ''TOKEN_STATUS''"

definition TOKEN_PENDING :: pystr where "TOKEN_PENDING = cps ''pending''"
definition TOKEN_APPROVED :: pystr where "TOKEN_APPROVED = cps ''approved''"
definition TOKEN_REVOKED :: pystr where "TOKEN_REVOKED = cps ''revoked''"
definition TOKEN_DENIED :: pystr where "TOKEN_DENIED = cps ''denied''"
definition TOKEN_INVALID :: pystr where "TOKEN_INVALID = cps ''invalid''"

lemmas token_consts =
  TOKEN_PENDING_def TOKEN_APPROVED_def TOKEN_REVOKED_def TOKEN_DENIED_def
  TOKEN_INVALID_def cps_def

lemmas msg_consts =
  MSG_REGISTER_def MSG_CMD_def MSG_RESULT_def MSG_TOKEN_REQUEST_def MSG_TOKEN_STATUS_def
  cps_def colon_def

section \<open>The credential table (server/token\_manager.py)\<close>

text \<open>
  The table \<open>tokens\<close> of the SQLite file is the list of its rows in rowid order; the
  column \<open>hostname\<close> is \<open>UNIQUE NOT NULL\<close>. \<open>CURRENT_TIMESTAMP\<close> is the argument
  \<open>now\<close> of the operation that stamps a row, and the value that \<open>generate_token()\<close>
  (\<open>secrets.token_hex(32)\<close>) yields in a call is the argument \<open>new_token\<close> of the
  operation that makes the call. Every operation runs under \<open>db_lock\<close>, so it is one
  atomic function on the table. The columns \<open>id\<close> and \<open>notes\<close> are never read.
\<close>

record token_row =
  hostname :: pystr
  token :: pystr
  status :: pystr
  ip_address :: "pystr option"
  requested_at :: nat
  approved_at :: "nat option"
  revoked_at :: "nat option"

type_synonym token_db = "token_row list"

text \<open>\<open>SELECT ... FROM tokens WHERE hostname = ?\<close> followed by \<open>fetchone()\<close>.\<close>

definition select_row :: "pystr \<Rightarrow> token_db \<Rightarrow> token_row option" where
  "select_row h db = find (\<lambda>r. hostname r = h) db"

text \<open>\<open>UPDATE tokens SET ... WHERE hostname = ?\<close> and its \<open>rowcount\<close>.\<close>

definition update_rows :: "pystr \<Rightarrow> (token_row \<Rightarrow> token_row) \<Rightarrow> token_db \<Rightarrow> token_db" where
  "update_rows h f db = map (\<lambda>r. if hostname r = h then f r else r) db"

definition rowcount :: "pystr \<Rightarrow> token_db \<Rightarrow> nat" where
  "rowcount h db = length (filter (\<lambda>r. hostname r = h) db)"

datatype sql_error = IntegrityError

text \<open>\<open>INSERT INTO tokens\<close>: the \<open>UNIQUE\<close> constraint raises \<open>sqlite3.IntegrityError\<close>.\<close>

definition insert_row :: "token_row \<Rightarrow> token_db \<Rightarrow> sql_error + token_db" where
  "insert_row r db =
     (if select_row (hostname r) db = None then Inr (db @ [r]) else Inl IntegrityError)"

text \<open>
  \<open>generate_token()\<close> of common/auth.py is \<open>secrets.token_hex(32)\<close>: the lower-case
  hexadecimal digits of 32 octets from the operating system's random generator. The
  octets drawn are the argument.
\<close>

definition hex_digit :: "nat \<Rightarrow> nat" where
  "hex_digit n = (if n < 10 then 48 + n else 87 + n)"

definition token_hex :: "bytes \<Rightarrow> pystr" where
  "token_hex bs = concat (map (\<lambda>b. [hex_digit (unat b div 16), hex_digit (unat b mod 16)]) bs)"

definition generate_token :: "bytes \<Rightarrow> pystr" where
  "generate_token drawn = token_hex drawn"

definition request_token ::
  "pystr \<Rightarrow> pystr \<Rightarrow> pystr \<Rightarrow> nat \<Rightarrow> token_db \<Rightarrow> (bool \<times> pystr option \<times> pystr) \<times> token_db" where
  "request_token h ip new_token now db =
     (case select_row h db of
        Some existing \<Rightarrow>
          if status existing = cps ''approved'' then
            ((True, Some (token existing), cps ''approved''), db)
          else if status existing = cps ''pending'' then
            ((True, Some (token existing), cps ''pending''), db)
          else
            ((True, Some new_token, cps ''pending''),
             update_rows h (\<lambda>r. r\<lparr>token := new_token, status := cps ''pending'',
                                   ip_address := Some ip, requested_at := now,
                                   approved_at := None, revoked_at := None\<rparr>) db)
      | None \<Rightarrow>
          (case insert_row \<lparr>hostname = h, token = new_token, status = cps ''pending'',
                             ip_address = Some ip, requested_at = now,
                             approved_at = None, revoked_at = None\<rparr> db of
             Inr db' \<Rightarrow> ((True, Some new_token, cps ''pending''), db')
           | Inl IntegrityError \<Rightarrow> ((False, None, cps ''error''), db)))"

definition approve_token :: "pystr \<Rightarrow> nat \<Rightarrow> token_db \<Rightarrow> (bool \<times> pystr option) \<times> token_db" where
  "approve_token h now db =
     (case select_row h db of
        None \<Rightarrow> ((False, None), db)
      | Some r \<Rightarrow>
          if status r = cps ''approved'' then ((True, Some (token r)), db)
          else ((True, Some (token r)),
                update_rows h (\<lambda>r. r\<lparr>status := cps ''approved'', approved_at := Some now\<rparr>) db))"

definition deny_token :: "pystr \<Rightarrow> token_db \<Rightarrow> bool \<times> token_db" where
  "deny_token h db =
     (0 < rowcount h db, update_rows h (\<lambda>r. r\<lparr>status := cps ''denied''\<rparr>) db)"

definition revoke_token :: "pystr \<Rightarrow> nat \<Rightarrow> token_db \<Rightarrow> bool \<times> token_db" where
  "revoke_token h now db =
     (0 < rowcount h db,
      update_rows h (\<lambda>r. r\<lparr>status := cps ''revoked'', revoked_at := Some now\<rparr>) db)"

text \<open>
  \<open>ORDER BY requested_at ASC\<close>: rows with equal timestamps are taken in rowid
  order (the sort is stable).
\<close>

definition get_pending_requests :: "token_db \<Rightarrow> (pystr \<times> pystr option \<times> nat) list" where
  "get_pending_requests db =
     map (\<lambda>r. (hostname r, ip_address r, requested_at r))
       (sort_key requested_at (filter (\<lambda>r. status r = cps ''pending'') db))"

definition get_token_by_hostname :: "pystr \<Rightarrow> token_db \<Rightarrow> pystr option \<times> pystr option" where
  "get_token_by_hostname h db =
     (case select_row h db of
        Some r \<Rightarrow> (Some (token r), Some (status r))
      | None \<Rightarrow> (None, None))"

definition delete_token :: "pystr \<Rightarrow> token_db \<Rightarrow> bool \<times> token_db" where
  "delete_token h db = (0 < rowcount h db, filter (\<lambda>r. hostname r \<noteq> h) db)"

section \<open>Python built-ins used by the operator console\<close>

datatype py_error =
    ValueError | IndexError | TypeError | OSError | SocketTimeout
  | StructError | UnicodeEncodeError | MessageSizeExceeded

text \<open>
  \<open>int(s)\<close> for a string, as CPython 3.11 (Unicode 14.0) computes it. First every
  character from \<open>U+007F\<close> on is replaced: a Unicode blank by a space, a Unicode
  decimal digit by the ASCII digit of its value, anything else by \<open>?\<close>. Every
  script's decimal digits are ten consecutive code points, listed by their zero. On the
  result, the blanks \<open>\t \n \v \f \r\<close> and space around the number are dropped, one
  sign is allowed, and the rest is a run of decimal digits in which single underscores
  may separate digits. Anything else raises \<open>ValueError\<close>, and so do more than 4300
  digits (the limit on conversions between \<open>int\<close> and \<open>str\<close>).
\<close>

definition unicode_spaces :: "nat list" where
  "unicode_spaces =
    [0x85, 0xA0, 0x1680, 0x2000, 0x2001, 0x2002, 0x2003, 0x2004, 0x2005, 0x2006,
      0x2007, 0x2008, 0x2009, 0x200A, 0x2028, 0x2029, 0x202F, 0x205F, 0x3000]"

definition decimal_zeros :: "nat list" where
  "decimal_zeros =
    [0x660, 0x6F0, 0x7C0, 0x966, 0x9E6, 0xA66, 0xAE6, 0xB66, 0xBE6, 0xC66, 0xCE6,
      0xD66, 0xDE6, 0xE50, 0xED0, 0xF20, 0x1040, 0x1090, 0x17E0, 0x1810, 0x1946,
      0x19D0, 0x1A80, 0x1A90, 0x1B50, 0x1BB0, 0x1C40, 0x1C50, 0xA620, 0xA8D0, 0xA900,
      0xA9D0, 0xA9F0, 0xAA50, 0xABF0, 0xFF10, 0x104A0, 0x10D30, 0x11066, 0x110F0,
      0x11136, 0x111D0, 0x112F0, 0x11450, 0x114D0, 0x11650, 0x116C0, 0x11730, 0x118E0,
      0x11950, 0x11C50, 0x11D50, 0x11DA0, 0x16A60, 0x16AC0, 0x16B50, 0x1D7CE, 0x1D7D8,
      0x1D7E2, 0x1D7EC, 0x1D7F6, 0x1E140, 0x1E2F0, 0x1E950, 0x1FBF0]"

definition to_ascii :: "nat \<Rightarrow> nat" where
  "to_ascii c =
     (if c < 127 then c
      else if c \<in> set unicode_spaces then 32
      else case find (\<lambda>z. z \<le> c \<and> c < z + 10) decimal_zeros of
             Some z \<Rightarrow> 48 + (c - z)
           | None \<Rightarrow> 63)"

definition is_space :: "nat \<Rightarrow> bool" where
  "is_space c = ((9 \<le> c \<and> c \<le> 13) \<or> c = 32)"

definition is_digit :: "nat \<Rightarrow> bool" where
  "is_digit c = (48 \<le> c \<and> c \<le> 57)"

definition strip :: "pystr \<Rightarrow> pystr" where
  "strip s = rev (dropWhile is_space (rev (dropWhile is_space s)))"

fun digits_value :: "nat \<Rightarrow> pystr \<Rightarrow> nat option" where
  "digits_value acc [] = Some acc"
| "digits_value acc [c] = (if is_digit c then Some (acc * 10 + (c - 48)) else None)"
| "digits_value acc (c # d # ds) =
     (if is_digit c then digits_value (acc * 10 + (c - 48)) (d # ds)
      else if c = 95 \<and> is_digit d then digits_value (acc * 10 + (d - 48)) ds
      else None)"

definition unsigned_value :: "pystr \<Rightarrow> nat option" where
  "unsigned_value s =
     (case s of
        [] \<Rightarrow> None
      | c # cs \<Rightarrow> if is_digit c then digits_value (c - 48) cs else None)"

definition max_str_digits :: nat where
  "max_str_digits = 4300"

definition py_int :: "pystr \<Rightarrow> py_error + int" where
  "py_int s =
     (let t = strip (map to_ascii s);
          (neg, body) = (case t of
                           [] \<Rightarrow> (False, [])
                         | c # cs \<Rightarrow> if c = 45 then (True, cs)
                                     else if c = 43 then (False, cs) else (False, t))
      in if max_str_digits < length (filter is_digit body) then Inl ValueError
         else case unsigned_value body of
                None \<Rightarrow> Inl ValueError
              | Some n \<Rightarrow> Inr (if neg then - int n else int n))"

text \<open>\<open>xs[i]\<close> for an index that may be negative; out of range raises \<open>IndexError\<close>.\<close>

definition py_getitem :: "'a list \<Rightarrow> int \<Rightarrow> py_error + 'a" where
  "py_getitem xs i =
     (let k = (if i < 0 then i + int (length xs) else i)
      in if k < 0 \<or> int (length xs) \<le> k then Inl IndexError else Inr (xs ! nat k))"

text \<open>\<open>x or y\<close> where \<open>x\<close> is \<open>None\<close> or a string.\<close>

definition or_else :: "pystr option \<Rightarrow> pystr \<Rightarrow> pystr" where
  "or_else x y = (case x of None \<Rightarrow> y | Some s \<Rightarrow> if s = [] then y else s)"

section \<open>The connection registry (server/client\_handler.py)\<close>

text \<open>
  \<open>clients\<close> is a Python dict, which keeps its keys in insertion order: assigning to
  a key that is present keeps the key's place, assigning to a new key appends it, and
  \<open>del\<close> removes it. That is an association list with \<open>AList.update\<close> and
  \<open>AList.delete\<close>. An entry holds the session id, the socket (by its handle: the
  handler and the registry share one socket object) and the peer address; the thread and
  the per-client lock of the entry are scheduling objects and are left out.
\<close>

record client_info =
  session_id :: pystr
  socket :: nat
  address :: "pystr \<times> nat"

type_synonym registry = "(pystr \<times> client_info) list"

definition get_clients_list :: "registry \<Rightarrow> (nat \<times> pystr \<times> client_info) list" where
  "get_clients_list clients = zip [1..<Suc (length clients)] clients"

text \<open>
  The resolvers. The body inside \<open>try\<close> may raise; the handler
  \<open>except (ValueError, IndexError)\<close> turns those two into \<open>None\<close> and lets any
  other exception through.
\<close>

definition catch_value_index :: "py_error + pystr option \<Rightarrow> py_error + pystr option" where
  "catch_value_index r =
     (case r of
        Inl e \<Rightarrow> if e = ValueError \<or> e = IndexError then Inr None else Inl e
      | Inr v \<Rightarrow> Inr v)"

definition get_hostname_by_number :: "pystr \<Rightarrow> registry \<Rightarrow> py_error + pystr option" where
  "get_hostname_by_number number clients =
     catch_value_index
       (case py_int number of
          Inl e \<Rightarrow> Inl e
        | Inr num \<Rightarrow>
            (case find (\<lambda>(idx, h, info). int idx = num) (get_clients_list clients) of
               Some (idx, h, info) \<Rightarrow> Inr (Some h)
             | None \<Rightarrow> Inr None))"

definition get_pending_hostname_by_number :: "pystr \<Rightarrow> token_db \<Rightarrow> py_error + pystr option" where
  "get_pending_hostname_by_number number db =
     catch_value_index
       (case py_int number of
          Inl e \<Rightarrow> Inl e
        | Inr num \<Rightarrow>
            (let pending = get_pending_requests db
             in if 1 \<le> num \<and> num \<le> int (length pending) then
                  (case py_getitem pending (num - 1) of
                     Inl e \<Rightarrow> Inl e
                   | Inr row \<Rightarrow> Inr (Some (fst row)))
                else Inr None))"

section \<open>Operator commands (server/cli.py)\<close>

text \<open>
  The commands print their outcome and return nothing; the model returns what decides
  the printed line, together with the new table. \<open>cli_\<close> separates the console's
  functions from the store's functions of the same name.
\<close>

definition cli_approve_token ::
  "pystr \<Rightarrow> nat \<Rightarrow> token_db \<Rightarrow> py_error + ((pystr \<times> bool) \<times> token_db)" where
  "cli_approve_token target now db =
     (case get_pending_hostname_by_number target db of
        Inl e \<Rightarrow> Inl e
      | Inr res \<Rightarrow>
          (let h = or_else res target;
               ((success, tok), db') = approve_token h now db
           in Inr ((h, success), db')))"

definition cli_deny_token ::
  "pystr \<Rightarrow> token_db \<Rightarrow> py_error + ((pystr \<times> bool) \<times> token_db)" where
  "cli_deny_token target db =
     (case get_pending_hostname_by_number target db of
        Inl e \<Rightarrow> Inl e
      | Inr res \<Rightarrow>
          (let h = or_else res target;
               (success, db') = deny_token h db
           in Inr ((h, success), db')))"

datatype renew_outcome = NoTokenFound | NotRevoked | Renewed | RenewFailed

definition cli_renew_token ::
  "pystr \<Rightarrow> registry \<Rightarrow> nat \<Rightarrow> token_db \<Rightarrow> py_error + ((pystr \<times> renew_outcome) \<times> token_db)" where
  "cli_renew_token target clients now db =
     (case get_hostname_by_number target clients of
        Inl e \<Rightarrow> Inl e
      | Inr res \<Rightarrow>
          (let h = or_else res target;
               (tok, st) = get_token_by_hostname h db
           in if \<not> truthy tok then Inr ((h, NoTokenFound), db)
              else if st \<noteq> Some (cps ''revoked'') then Inr ((h, NotRevoked), db)
              else (let ((success, t), db') = approve_token h now db
                    in Inr ((h, if success then Renewed else RenewFailed), db'))))"

section \<open>Sample data\<close>

text \<open>A row for host \<open>A\<close> in a given status, with every timestamp set.\<close>

definition demo_row :: "pystr \<Rightarrow> token_row" where
  "demo_row st = \<lparr>hostname = cps ''A'', token = cps ''aa'', status = st, ip_address = None,
                   requested_at = 1, approved_at = Some 2, revoked_at = Some 3\<rparr>"


text \<open>A pending row whose hostname is the digit string \<open>5\<close>.\<close>

definition five_row :: token_row where
  "five_row = \<lparr>hostname = cps ''5'', token = cps ''cc'', status = TOKEN_PENDING,
                ip_address = None, requested_at = 1, approved_at = None, revoked_at = None\<rparr>"

section \<open>UTF-8\<close>

text \<open>
  \<open>str.encode('utf-8')\<close>: one to four octets per code point; a surrogate
  (\<open>U+D800\<close> to \<open>U+DFFF\<close>) raises \<open>UnicodeEncodeError\<close>. A number from
  \<open>0x110000\<close> on is no code point and cannot occur in a \<open>str\<close>; the model answers
  \<open>ValueError\<close> there, as \<open>chr\<close> does.
\<close>

definition utf8_encode_cp :: "nat \<Rightarrow> py_error + bytes" where
  "utf8_encode_cp c =
     (if c < 0x80 then Inr [of_nat c]
      else if c < 0x800 then Inr [of_nat (0xC0 + c div 64), of_nat (0x80 + c mod 64)]
      else if 0xD800 \<le> c \<and> c < 0xE000 then Inl UnicodeEncodeError
      else if c < 0x10000 then
        Inr [of_nat (0xE0 + c div 4096), of_nat (0x80 + c div 64 mod 64), of_nat (0x80 + c mod 64)]
      else if c < 0x110000 then
        Inr [of_nat (0xF0 + c div 262144), of_nat (0x80 + c div 4096 mod 64),
             of_nat (0x80 + c div 64 mod 64), of_nat (0x80 + c mod 64)]
      else Inl ValueError)"

fun utf8_encode :: "pystr \<Rightarrow> py_error + bytes" where
  "utf8_encode [] = Inr []"
| "utf8_encode (c # cs) =
     (case utf8_encode_cp c of
        Inl e \<Rightarrow> Inl e
      | Inr b \<Rightarrow> (case utf8_encode cs of Inl e \<Rightarrow> Inl e | Inr bs \<Rightarrow> Inr (b @ bs)))"

text \<open>
  \<open>bytes.decode('utf-8', errors='replace')\<close>, on the octets' values. A well-formed
  sequence gives its code point. An octet that cannot start a sequence, and a start
  octet together with the continuation octets that were accepted before the first one
  that does not fit, give one \<open>U+FFFD\<close>; decoding goes on at the octet that did not
  fit. A sequence cut off by the end of the input gives one \<open>U+FFFD\<close>. Overlong
  forms, surrogates and values above \<open>U+10FFFF\<close> are refused at the second octet.
\<close>

definition is_cont :: "nat \<Rightarrow> bool" where
  "is_cont b = (0x80 \<le> b \<and> b < 0xC0)"

definition REPLACEMENT :: nat where
  "REPLACEMENT = 0xFFFD"

fun utf8_decode :: "nat list \<Rightarrow> pystr" where
  "utf8_decode [] = []"
| "utf8_decode (b0 # rest) =
     (if b0 < 0x80 then b0 # utf8_decode rest
      else if b0 < 0xC2 then REPLACEMENT # utf8_decode rest
      else if b0 < 0xE0 then
        (case rest of
           [] \<Rightarrow> [REPLACEMENT]
         | b1 # r1 \<Rightarrow>
             if is_cont b1 then ((b0 - 0xC0) * 64 + (b1 - 0x80)) # utf8_decode r1
             else REPLACEMENT # utf8_decode rest)
      else if b0 < 0xF0 then
        (case rest of
           [] \<Rightarrow> [REPLACEMENT]
         | b1 # r1 \<Rightarrow>
             if \<not> is_cont b1 \<or> (b0 = 0xE0 \<and> b1 < 0xA0) \<or> (b0 = 0xED \<and> 0xA0 \<le> b1)
             then REPLACEMENT # utf8_decode rest
             else (case r1 of
                     [] \<Rightarrow> [REPLACEMENT]
                   | b2 # r2 \<Rightarrow>
                       if is_cont b2
                       then ((b0 - 0xE0) * 4096 + (b1 - 0x80) * 64 + (b2 - 0x80)) # utf8_decode r2
                       else REPLACEMENT # utf8_decode r1))
      else if b0 < 0xF5 then
        (case rest of
           [] \<Rightarrow> [REPLACEMENT]
         | b1 # r1 \<Rightarrow>
             if \<not> is_cont b1 \<or> (b0 = 0xF0 \<and> b1 < 0x90) \<or> (b0 = 0xF4 \<and> 0x90 \<le> b1)
             then REPLACEMENT # utf8_decode rest
             else (case r1 of
                     [] \<Rightarrow> [REPLACEMENT]
                   | b2 # r2 \<Rightarrow>
                       if \<not> is_cont b2 then REPLACEMENT # utf8_decode r1
                       else (case r2 of
                               [] \<Rightarrow> [REPLACEMENT]
                             | b3 # r3 \<Rightarrow>
                                 if is_cont b3
                                 then ((b0 - 0xF0) * 262144 + (b1 - 0x80) * 4096
                                        + (b2 - 0x80) * 64 + (b3 - 0x80)) # utf8_decode r3
                                 else REPLACEMENT # utf8_decode r2)))
      else REPLACEMENT # utf8_decode rest)"

definition decode_utf8_replace :: "bytes \<Rightarrow> pystr" where
  "decode_utf8_replace bs = utf8_decode (map unat bs)"

section \<open>struct.pack('>I', n) and struct.unpack('>I', b)\<close>

definition pack_be32 :: "nat \<Rightarrow> py_error + bytes" where
  "pack_be32 n =
     (if n < 2 ^ 32
      then Inr [of_nat (n div 2 ^ 24), of_nat (n div 2 ^ 16), of_nat (n div 2 ^ 8), of_nat n]
      else Inl StructError)"

definition unpack_be32 :: "bytes \<Rightarrow> py_error + nat" where
  "unpack_be32 bs =
     (case bs of
        [a, b, c, d] \<Rightarrow> Inr (unat a * 2 ^ 24 + unat b * 2 ^ 16 + unat c * 2 ^ 8 + unat d)
      | _ \<Rightarrow> Inl StructError)"

section \<open>Sockets\<close>

text \<open>
  A connected stream socket, seen from one end. \<open>incoming\<close> is what the following
  calls of \<open>recv\<close> will meet, in order: data that arrived together, the expiry of
  the socket's timeout, or a transport error; when the list is used up the peer has shut
  the stream down and \<open>recv\<close> returns \<open>b''\<close>. \<open>outgoing\<close> collects the octets
  written. \<open>capacity\<close> is how many more octets the transport takes before \<open>sendall\<close>
  fails (\<open>None\<close>: it takes everything). Any chunking of the stream is a choice of
  \<open>incoming\<close>.
\<close>

datatype event = Data bytes | Expiry | Failure

record sock =
  incoming :: "event list"
  outgoing :: bytes
  capacity :: "nat option"
  closed :: bool

definition recv :: "sock \<Rightarrow> nat \<Rightarrow> (py_error + bytes) \<times> sock" where
  "recv s k =
     (if closed s then (Inl OSError, s)
      else case incoming s of
             [] \<Rightarrow> (Inr [], s)
           | Data bs # rest \<Rightarrow>
               (Inr (take k bs),
                s\<lparr>incoming := (if length bs \<le> k then rest else Data (drop k bs) # rest)\<rparr>)
           | Expiry # rest \<Rightarrow> (Inl SocketTimeout, s\<lparr>incoming := rest\<rparr>)
           | Failure # rest \<Rightarrow> (Inl OSError, s\<lparr>incoming := rest\<rparr>))"

definition sendall :: "sock \<Rightarrow> bytes \<Rightarrow> (py_error + unit) \<times> sock" where
  "sendall s data =
     (if closed s then (Inl OSError, s)
      else case capacity s of
             None \<Rightarrow> (Inr (), s\<lparr>outgoing := outgoing s @ data\<rparr>)
           | Some c \<Rightarrow>
               if length data \<le> c
               then (Inr (), s\<lparr>outgoing := outgoing s @ data, capacity := Some (c - length data)\<rparr>)
               else (Inl OSError, s\<lparr>outgoing := outgoing s @ take c data, capacity := Some 0\<rparr>))"

definition close :: "sock \<Rightarrow> sock" where
  "close s = s\<lparr>closed := True\<rparr>"

section \<open>Framing (common/protocol.py)\<close>

text \<open>
  The functions print a diagnostic line when they catch an exception; the console is
  not part of the model. \<open>send_message_body\<close> and \<open>recv_message_body\<close> are the
  bodies of the \<open>try\<close> statements, \<open>send_message\<close> and \<open>recv_message\<close> apply the
  \<open>except\<close> clauses to them.
\<close>

datatype payload = Str pystr | Bytes bytes

definition payload_bytes :: "payload \<Rightarrow> py_error + bytes" where
  "payload_bytes m = (case m of Str t \<Rightarrow> utf8_encode t | Bytes b \<Rightarrow> Inr b)"

definition send_message_body :: "sock \<Rightarrow> payload \<Rightarrow> (py_error + unit) \<times> sock" where
  "send_message_body s message =
     (case payload_bytes message of
        Inl e \<Rightarrow> (Inl e, s)
      | Inr data \<Rightarrow>
          (case pack_be32 (length data) of
             Inl e \<Rightarrow> (Inl e, s)
           | Inr len \<Rightarrow> sendall s (len @ data)))"

definition send_message :: "sock \<Rightarrow> payload \<Rightarrow> bool \<times> sock" where
  "send_message s message =
     (case send_message_body s message of
        (Inr u, s') \<Rightarrow> (True, s')
      | (Inl e, s') \<Rightarrow> (False, s'))"

function recv_exact_loop :: "sock \<Rightarrow> nat \<Rightarrow> bytes \<Rightarrow> (py_error + bytes option) \<times> sock" where
  "recv_exact_loop s n data =
     (if length data < n then
        (case recv s (n - length data) of
           (Inl e, s') \<Rightarrow> (Inl e, s')
         | (Inr chunk, s') \<Rightarrow>
             if chunk = [] then (Inr None, s') else recv_exact_loop s' n (data @ chunk))
      else (Inr (Some data), s))"
  by pat_completeness auto
termination
  by (relation "measure (\<lambda>(s, n, data). n - length data)") (auto simp: neq_Nil_conv)

declare recv_exact_loop.simps [simp del]

definition recv_exact :: "sock \<Rightarrow> nat \<Rightarrow> (py_error + bytes option) \<times> sock" where
  "recv_exact s n = recv_exact_loop s n []"

text \<open>\<open>if not x: return None\<close> is taken for \<open>None\<close> and for \<open>b''\<close> alike.\<close>

definition recv_message_body :: "sock \<Rightarrow> (py_error + pystr option) \<times> sock" where
  "recv_message_body s =
     (case recv_exact s 4 of
        (Inl e, s1) \<Rightarrow> (Inl e, s1)
      | (Inr None, s1) \<Rightarrow> (Inr None, s1)
      | (Inr (Some length_data), s1) \<Rightarrow>
          if length_data = [] then (Inr None, s1)
          else (case unpack_be32 length_data of
                  Inl e \<Rightarrow> (Inl e, s1)
                | Inr message_length \<Rightarrow>
                    if message_length > MAX_MESSAGE_SIZE then (Inl MessageSizeExceeded, s1)
                    else (case recv_exact s1 message_length of
                            (Inl e, s2) \<Rightarrow> (Inl e, s2)
                          | (Inr None, s2) \<Rightarrow> (Inr None, s2)
                          | (Inr (Some message_data), s2) \<Rightarrow>
                              if message_data = [] then (Inr None, s2)
                              else (Inr (Some (decode_utf8_replace message_data)), s2))))"

definition recv_message :: "sock \<Rightarrow> (py_error + pystr option) \<times> sock" where
  "recv_message s =
     (case recv_message_body s of
        (Inl e, s') \<Rightarrow> if e = SocketTimeout then (Inl SocketTimeout, s') else (Inr None, s')
      | (Inr v, s') \<Rightarrow> (Inr v, s'))"

text \<open>A fresh connected socket on which nothing has arrived yet.\<close>

definition sock0 :: sock where
  "sock0 = \<lparr>incoming = [], outgoing = [], capacity = None, closed = False\<rparr>"

text \<open>
  Two streams: one that declares a payload of \<open>0x00A00001\<close> octets (one more than the
  maximum) and has three octets of it waiting, and one that declares five octets,
  delivers two and is shut down.
\<close>

definition oversized_sock :: sock where
  "oversized_sock = sock0\<lparr>incoming := [Data [0, 0xA0, 0, 1, 97, 98, 99]]\<rparr>"

definition truncated_sock :: sock where
  "truncated_sock = sock0\<lparr>incoming := [Data [0, 0, 0, 5, 104, 105]]\<rparr>"

section \<open>More Python built-ins\<close>

text \<open>
  \<open>s.split(sep, maxsplit)\<close> for a separator that is not empty: \<open>split_from sep k acc s\<close>
  scans \<open>s\<close> with \<open>k\<close> splits left and the current field, reversed, in \<open>acc\<close>.
  \<open>s.split(sep)\<close> has no bound; no string has more separators than characters.
\<close>

function split_from :: "pystr \<Rightarrow> nat \<Rightarrow> pystr \<Rightarrow> pystr \<Rightarrow> pystr list" where
  "split_from sep k acc [] = [rev acc]"
| "split_from sep k acc (c # cs) =
     (if k = 0 then [rev acc @ c # cs]
      else if sep \<noteq> [] \<and> take (length sep) (c # cs) = sep
      then rev acc # split_from sep (k - 1) [] (drop (length sep) (c # cs))
      else split_from sep k (c # acc) cs)"
  by pat_completeness auto
termination
  by (relation "measure (\<lambda>(sep, k, acc, s). length s)") auto

definition py_split_max :: "pystr \<Rightarrow> nat \<Rightarrow> pystr \<Rightarrow> pystr list" where
  "py_split_max sep maxsplit s = split_from sep maxsplit [] s"

definition py_split :: "pystr \<Rightarrow> pystr \<Rightarrow> pystr list" where
  "py_split sep s = split_from sep (Suc (length s)) [] s"

definition startswith :: "pystr \<Rightarrow> pystr \<Rightarrow> bool" where
  "startswith s p = (take (length p) s = p)"

text \<open>
  \<open>secrets.compare_digest(a, b)\<close> on two \<open>str\<close>: it compares them, and raises
  \<open>TypeError\<close> when one of them has a character outside ASCII.
\<close>

definition is_ascii :: "pystr \<Rightarrow> bool" where
  "is_ascii s = list_all (\<lambda>c. c < 128) s"

definition compare_digest :: "pystr \<Rightarrow> pystr \<Rightarrow> py_error + bool" where
  "compare_digest a b = (if is_ascii a \<and> is_ascii b then Inr (a = b) else Inl TypeError)"

text \<open>\<open>f'{x}'\<close> for a value that is \<open>None\<close> or a string.\<close>

definition format_opt :: "pystr option \<Rightarrow> pystr" where
  "format_opt x = (case x of None \<Rightarrow> cps ''None'' | Some s \<Rightarrow> s)"

section \<open>The server's state\<close>

text \<open>
  What the handlers and the console share: the credential table (\<open>tokens\<close>), the
  registry (\<open>clients\<close>), the sockets (a store from handles to socket objects: the registry and the handler of a
  connection hold the same socket), and the notification queue with its counter
  (server/notifications.py). Logging is left out.
\<close>

record world =
  w_tokens :: token_db
  w_clients :: registry
  w_socks :: "nat \<Rightarrow> sock"
  notification_queue :: "(pystr \<times> pystr) list"
  pending_count :: nat

definition w_send :: "nat \<Rightarrow> pystr \<Rightarrow> world \<Rightarrow> bool \<times> world" where
  "w_send fd message w =
     (case send_message (w_socks w fd) (Str message) of
        (ok, s') \<Rightarrow> (ok, w\<lparr>w_socks := (w_socks w)(fd := s')\<rparr>))"

definition w_recv :: "nat \<Rightarrow> world \<Rightarrow> (py_error + pystr option) \<times> world" where
  "w_recv fd w =
     (case recv_message (w_socks w fd) of
        (r, s') \<Rightarrow> (r, w\<lparr>w_socks := (w_socks w)(fd := s')\<rparr>))"

definition w_close :: "nat \<Rightarrow> world \<Rightarrow> world" where
  "w_close fd w = w\<lparr>w_socks := (w_socks w)(fd := close (w_socks w fd))\<rparr>"

definition notify_token_request :: "pystr \<Rightarrow> pystr \<Rightarrow> world \<Rightarrow> world" where
  "notify_token_request h ip w =
     w\<lparr>pending_count := pending_count w + 1,
       notification_queue := notification_queue w @ [(h, ip)]\<rparr>"

section \<open>Session handlers (server/client\_handler.py)\<close>

text \<open>
  \<open>handle_registration\<close>. The replies are sent inside \<open>try: ... except: pass\<close>;
  \<open>send_message\<close> returns in every case. The comparison of the secrets can raise, and
  nothing in the function catches that.
\<close>

definition reply_and_close :: "nat \<Rightarrow> pystr \<Rightarrow> world \<Rightarrow> world" where
  "reply_and_close fd st w = w_close fd (snd (w_send fd (join_colon MSG_TOKEN_STATUS st) w))"

definition handle_registration ::
  "nat \<Rightarrow> pystr \<times> nat \<Rightarrow> pystr \<Rightarrow> pystr \<Rightarrow> world \<Rightarrow> (py_error + pystr option) \<times> world" where
  "handle_registration fd client_address sid reg_message w =
     (case py_split_max [colon] 2 reg_message of
        [p0, h, client_token] \<Rightarrow>
          (case get_token_by_hostname h (w_tokens w) of
             (stored_token, token_status) \<Rightarrow>
               if truthy stored_token \<and> truthy token_status then
                 (case compare_digest (format_opt stored_token) client_token of
                    Inl e \<Rightarrow> (Inl e, w)
                  | Inr True \<Rightarrow>
                      if token_status = Some (cps ''revoked'')
                      then (Inr None, reply_and_close fd TOKEN_REVOKED w)
                      else if token_status = Some (cps ''approved'')
                      then (Inr (Some h),
                            w\<lparr>w_clients := AList.update h
                                 \<lparr>session_id = sid, socket = fd, address = client_address\<rparr>
                                 (w_clients w)\<rparr>)
                      else (Inr None, reply_and_close fd TOKEN_INVALID w)
                  | Inr False \<Rightarrow> (Inr None, reply_and_close fd TOKEN_INVALID w))
               else (Inr None, reply_and_close fd TOKEN_INVALID w))
      | _ \<Rightarrow> (Inr None, w_close fd w))"

text \<open>
  A function that may not return yields \<open>Running\<close> when its fuel is used up:
  \<open>Returned\<close> is a normal return, \<open>Raised\<close> an exception that leaves the function.
\<close>

datatype 'a run = Returned 'a | Raised py_error | Running

text \<open>The reply to a status check; the flag says whether the polling loop goes on.\<close>

definition status_reply :: "nat \<Rightarrow> pystr \<Rightarrow> world \<Rightarrow> bool \<times> world" where
  "status_reply fd h w =
     (case get_token_by_hostname h (w_tokens w) of
        (tok, st) \<Rightarrow>
          if st = Some TOKEN_APPROVED
          then (False, snd (w_send fd (join_colon (join_colon MSG_TOKEN_STATUS TOKEN_APPROVED)
                                         (format_opt tok)) w))
          else if st = Some TOKEN_DENIED
          then (False, snd (w_send fd (join_colon MSG_TOKEN_STATUS TOKEN_DENIED) w))
          else if st = Some TOKEN_PENDING
          then (True, snd (w_send fd (join_colon MSG_TOKEN_STATUS TOKEN_PENDING) w))
          else (False, snd (w_send fd (join_colon MSG_TOKEN_STATUS TOKEN_INVALID) w)))"

text \<open>
  The polling loop of \<open>handle_token_request\<close>, with its \<open>except Exception\<close>: the loop
  ends at a disconnect, at any exception, at a message of another type, and after a
  reply other than pending.
\<close>

fun poll_loop :: "nat \<Rightarrow> nat \<Rightarrow> pystr \<Rightarrow> world \<Rightarrow> unit run \<times> world" where
  "poll_loop 0 fd h w = (Running, w)"
| "poll_loop (Suc fuel) fd h w =
     (case w_recv fd w of
        (Inl e, w1) \<Rightarrow> (Returned (), w1)
      | (Inr message, w1) \<Rightarrow>
          if \<not> truthy message then (Returned (), w1)
          else if startswith (format_opt message) MSG_TOKEN_REQUEST then
            (case py_split_max [colon] 2 (format_opt message) of
               [p0, p1, p2] \<Rightarrow>
                 if p2 = cps ''status_check''
                 then (case status_reply fd h w1 of
                         (True, w2) \<Rightarrow> poll_loop fuel fd h w2
                       | (False, w2) \<Rightarrow> (Returned (), w2))
                 else poll_loop fuel fd h w1
             | _ \<Rightarrow> poll_loop fuel fd h w1)
          else (Returned (), w1))"

definition handle_token_request ::
  "nat \<Rightarrow> nat \<Rightarrow> pystr \<times> nat \<Rightarrow> pystr \<Rightarrow> pystr \<Rightarrow> pystr \<Rightarrow> nat \<Rightarrow> world \<Rightarrow> unit run \<times> world" where
  "handle_token_request fuel fd client_address sid request_message new_token now w =
     (case py_split_max [colon] 2 request_message of
        [p0] \<Rightarrow> (Returned (), w_close fd w)
      | p0 # h # rest \<Rightarrow>
          (let ip = (case rest of [] \<Rightarrow> fst client_address | p2 # ps \<Rightarrow> p2)
           in if rest = [cps ''status_check'']
              then (Returned (), snd (status_reply fd h w))
              else (case request_token h ip new_token now (w_tokens w) of
                      ((success, tok, st), db') \<Rightarrow>
                        (let w1 = w\<lparr>w_tokens := db'\<rparr>
                         in if \<not> success
                            then (Returned (),
                                  w_close fd (snd (w_send fd (join_colon MSG_TOKEN_STATUS TOKEN_INVALID) w1)))
                            else if st = TOKEN_APPROVED
                            then poll_loop fuel fd h
                                   (snd (w_send fd (join_colon (join_colon MSG_TOKEN_STATUS TOKEN_APPROVED)
                                                      (format_opt tok)) w1))
                            else if st = TOKEN_PENDING
                            then poll_loop fuel fd h
                                   (snd (w_send fd (join_colon MSG_TOKEN_STATUS TOKEN_PENDING)
                                           (notify_token_request h ip w1)))
                            else poll_loop fuel fd h w1)))
      | [] \<Rightarrow> (Returned (), w_close fd w))"

text \<open>
  \<open>while True: time.sleep(60)\<close>. Sleeping touches nothing of the state and the
  loop has no exit.
\<close>

definition time_sleep :: "world \<Rightarrow> world" where
  "time_sleep w = w"

fun keep_alive :: "nat \<Rightarrow> world \<Rightarrow> unit run \<times> world" where
  "keep_alive 0 w = (Running, w)"
| "keep_alive (Suc fuel) w = keep_alive fuel (time_sleep w)"

text \<open>
  The \<open>finally\<close> clause of \<open>handle_client\<close>: the handler's teardown. \<open>hostname\<close> is
  the handler's local variable, \<open>None\<close> until a registration has succeeded.
\<close>

definition handle_client_finally :: "nat \<Rightarrow> pystr option \<Rightarrow> world \<Rightarrow> world" where
  "handle_client_finally fd hostname_var w =
     w_close fd
       (if truthy hostname_var \<and> map_of (w_clients w) (format_opt hostname_var) \<noteq> None
        then w\<lparr>w_clients := AList.delete (format_opt hostname_var) (w_clients w)\<rparr>
        else w)"

text \<open>
  The \<open>try\<close> body of \<open>handle_client\<close>: the result carries the value of the local
  variable \<open>hostname\<close> at the point where the body is left.
\<close>

definition handle_client_body ::
  "nat \<Rightarrow> nat \<Rightarrow> pystr \<times> nat \<Rightarrow> pystr \<Rightarrow> pystr \<Rightarrow> nat \<Rightarrow> world \<Rightarrow> (unit run \<times> pystr option) \<times> world" where
  "handle_client_body fuel fd client_address sid new_token now w =
     (case w_recv fd w of
        (Inl e, w1) \<Rightarrow> ((Raised e, None), w1)
      | (Inr first_message, w1) \<Rightarrow>
          if \<not> truthy first_message then ((Returned (), None), w_close fd w1)
          else if startswith (format_opt first_message) MSG_TOKEN_REQUEST then
            (case handle_token_request fuel fd client_address sid (format_opt first_message)
                    new_token now w1 of
               (r, w2) \<Rightarrow> ((r, None), w2))
          else if startswith (format_opt first_message) MSG_REGISTER then
            (case handle_registration fd client_address sid (format_opt first_message) w1 of
               (Inl e, w2) \<Rightarrow> ((Raised e, None), w2)
             | (Inr h, w2) \<Rightarrow>
                 if \<not> truthy h then ((Returned (), h), w2)
                 else (case keep_alive fuel w2 of (r, w3) \<Rightarrow> ((r, h), w3)))
          else ((Returned (), None), w_close fd w1))"

text \<open>
  \<open>handle_client\<close>: \<open>except Exception\<close> swallows what the body raises, and
  \<open>finally\<close> runs whenever the body is left. While the body is still running, nothing
  of the teardown has happened.
\<close>

definition handle_client ::
  "nat \<Rightarrow> nat \<Rightarrow> pystr \<times> nat \<Rightarrow> pystr \<Rightarrow> pystr \<Rightarrow> nat \<Rightarrow> world \<Rightarrow> unit run \<times> world" where
  "handle_client fuel fd client_address sid new_token now w =
     (case handle_client_body fuel fd client_address sid new_token now w of
        ((Running, h), w') \<Rightarrow> (Running, w')
      | ((r, h), w') \<Rightarrow> (Returned (), handle_client_finally fd h w'))"

section \<open>The dispatcher (server/client\_handler.py)\<close>

text \<open>
  \<open>send_command_to_client\<close>. \<open>response.split(':', 1)[1]\<close> raises \<open>IndexError\<close>
  when the response has no colon, and the function's \<open>except Exception\<close> turns that
  into an error string.
\<close>

definition send_command_to_client ::
  "pystr \<Rightarrow> pystr \<Rightarrow> world \<Rightarrow> (pystr option \<times> pystr) \<times> world" where
  "send_command_to_client h command w =
     (case map_of (w_clients w) h of
        None \<Rightarrow> ((None, cps ''Client not found or not authenticated''), w)
      | Some client_info \<Rightarrow>
          (case w_send (socket client_info) (join_colon MSG_CMD command) w of
             (False, w1) \<Rightarrow> ((None, cps ''Failed to send command''), w1)
           | (True, w1) \<Rightarrow>
               (case w_recv (socket client_info) w1 of
                  (Inl e, w2) \<Rightarrow>
                    if e = SocketTimeout then ((None, cps ''Timeout waiting for response''), w2)
                    else ((None, cps ''Error: ''), w2)
                | (Inr None, w2) \<Rightarrow>
                    ((None, cps ''No response from client (may be disconnected)''), w2)
                | (Inr (Some response), w2) \<Rightarrow>
                    if \<not> startswith response MSG_RESULT
                    then ((None, cps ''Invalid response format''), w2)
                    else (case py_split_max [colon] 1 response of
                            [p0, result_data] \<Rightarrow>
                              (case py_split (cps ''|||'') result_data of
                                 [] \<Rightarrow> ((Some [], []), w2)
                               | [out] \<Rightarrow> ((Some out, []), w2)
                               | out # err # others \<Rightarrow> ((Some out, err), w2))
                          | _ \<Rightarrow> ((None, cps ''Error: list index out of range''), w2)))))"

text \<open>
  A server on which host \<open>A\<close> has an approved credential with the secret \<open>aa\<close>
  and nobody is connected; a peer address; the registry entry that a registration of
  \<open>A\<close> in session \<open>sid\<close> on socket \<open>fd\<close> writes.
\<close>

definition world0 :: world where
  "world0 = \<lparr>w_tokens = [demo_row TOKEN_APPROVED], w_clients = [], w_socks = (\<lambda>fd. sock0),
              notification_queue = [], pending_count = 0\<rparr>"

definition peer_A :: "pystr \<times> nat" where
  "peer_A = (cps ''10.0.0.1'', 5000)"

definition entry_A :: "pystr \<Rightarrow> nat \<Rightarrow> pystr \<times> client_info" where
  "entry_A sid fd = (cps ''A'', \<lparr>session_id = sid, socket = fd, address = peer_A\<rparr>)"

text \<open>
  The frame of \<open>REGISTER:A:aa\<close>, and the server at the moment a connection on
  socket 1 has delivered that frame and nothing else: after the frame the stream is at
  its end, the peer has shut the transport down.
\<close>

definition register_frame :: bytes where
  "register_frame = [0, 0, 0, 13, 82, 69, 71, 73, 83, 84, 69, 82, 58, 65, 58, 97, 97]"

definition world1 :: world where
  "world1 = world0\<lparr>w_socks := (\<lambda>fd. sock0)(1 := sock0\<lparr>incoming := [Data register_frame]\<rparr>)\<rparr>"

section \<open>Properties of the credential table\<close>

lemma select_row_update_rows:
  assumes "\<And>r. hostname (f r) = hostname r"
  shows "select_row h' (update_rows h f db) =
     (if h' = h then map_option f (select_row h db) else select_row h' db)"
  using assms by (induction db) (auto simp: select_row_def update_rows_def)

lemma rowcount_pos: "(0 < rowcount h db) = (select_row h db \<noteq> None)"
  by (induction db) (auto simp: rowcount_def select_row_def)

lemma select_row_append:
  "select_row h (db @ [r]) =
     (case select_row h db of Some x \<Rightarrow> Some x | None \<Rightarrow> if hostname r = h then Some r else None)"
  by (induction db) (auto simp: select_row_def)




lemma generate_token_shape:
  "length (generate_token drawn) = 2 * length drawn \<and> is_ascii (generate_token drawn)"
proof (induction drawn)
  case Nil
  then show ?case by (simp add: generate_token_def token_hex_def is_ascii_def)
next
  case (Cons b bs)
  have "unat b < 2 ^ LENGTH(8)" by (rule unsigned_less)
  then have "unat b < 256" by simp
  then have d: "unat b div 16 < 16" by auto
  have m: "unat b mod 16 < 16" by simp
  have hx: "hex_digit n < 128" if "n < 16" for n
    using that by (simp add: hex_digit_def)
  have "hex_digit (unat b div 16) < 128" "hex_digit (unat b mod 16) < 128"
    by (rule hx [OF d], rule hx [OF m])
  then show ?case using Cons
    by (simp add: generate_token_def token_hex_def is_ascii_def)
qed




text \<open>
  C5 (as amended). \<open>deny_token\<close> sets the status of the host's row to denied whatever
  the status was, and \<open>revoke_token\<close> sets it to revoked and stamps \<open>revoked_at\<close>
  whatever the status was; both report whether a row existed and leave the rows of other
  hosts alone.
\<close>

theorem deny_revoke_unconditional:
  "select_row h' (snd (deny_token h db)) =
     (if h' = h then map_option (\<lambda>r. r\<lparr>status := TOKEN_DENIED\<rparr>) (select_row h db)
      else select_row h' db) \<and>
   fst (deny_token h db) = (select_row h db \<noteq> None) \<and>
   select_row h' (snd (revoke_token h now db)) =
     (if h' = h
      then map_option (\<lambda>r. r\<lparr>status := TOKEN_REVOKED, revoked_at := Some now\<rparr>) (select_row h db)
      else select_row h' db) \<and>
   fst (revoke_token h now db) = (select_row h db \<noteq> None)"
  by (simp add: deny_token_def revoke_token_def select_row_update_rows rowcount_pos
      TOKEN_DENIED_def TOKEN_REVOKED_def)

theorem deny_revoke_unconditional_witness:
  "select_row (cps ''A'') (snd (deny_token (cps ''A'') [demo_row TOKEN_APPROVED])) =
     Some ((demo_row TOKEN_APPROVED)\<lparr>status := TOKEN_DENIED\<rparr>) \<and>
   fst (deny_token (cps ''A'') [demo_row TOKEN_APPROVED]) \<and>
   select_row (cps ''A'') (snd (revoke_token (cps ''A'') 9 [demo_row TOKEN_PENDING])) =
     Some ((demo_row TOKEN_PENDING)\<lparr>status := TOKEN_REVOKED, revoked_at := Some 9\<rparr>)"
proof -
  have a: "select_row (cps ''A'') [demo_row st] = Some (demo_row st)" for st
    by (simp add: select_row_def demo_row_def)
  show ?thesis
    using deny_revoke_unconditional [of "cps ''A''" "cps ''A''" "[demo_row TOKEN_APPROVED]" 9]
      deny_revoke_unconditional [of "cps ''A''" "cps ''A''" "[demo_row TOKEN_PENDING]" 9]
    by (simp add: a)
qed

theorem deny_revoke_only_from_counterexample:
  "map status (snd (deny_token (cps ''A'') [demo_row TOKEN_APPROVED])) = [TOKEN_DENIED] \<and>
   map status [demo_row TOKEN_APPROVED] \<noteq> [TOKEN_DENIED] \<and>
   map status (snd (revoke_token (cps ''A'') 9 [demo_row TOKEN_PENDING])) = [TOKEN_REVOKED] \<and>
   map status [demo_row TOKEN_PENDING] \<noteq> [TOKEN_REVOKED]"
  by (simp add: deny_token_def revoke_token_def update_rows_def demo_row_def token_consts)

section \<open>Properties of the operator console\<close>

lemma approve_token_row:
  "select_row h db = Some r \<Longrightarrow>
   fst (approve_token h now db) = (True, Some (token r)) \<and>
   select_row h (snd (approve_token h now db)) =
     Some (if status r = TOKEN_APPROVED then r
           else r\<lparr>status := TOKEN_APPROVED, approved_at := Some now\<rparr>)"
  by (simp add: approve_token_def select_row_update_rows TOKEN_APPROVED_def)

text \<open>
  C7. \<open>renew_token\<close> of the console, on the host that its argument resolves to: it
  reports success exactly when the host has a row with a secret whose status is revoked;
  then the row's status becomes approved (with \<open>approved_at\<close> stamped) and its secret
  and every other column stay; in every other case, a missing row included, the table is
  left as it is.
\<close>

theorem renew_token_only_revoked:
  assumes "get_hostname_by_number target clients = Inr res" and "h = or_else res target"
  shows "\<exists>out db'. cli_renew_token target clients now db = Inr ((h, out), db') \<and>
     (out = Renewed) =
       (\<exists>r. select_row h db = Some r \<and> token r \<noteq> [] \<and> status r = TOKEN_REVOKED) \<and>
     (\<forall>r. out = Renewed \<and> select_row h db = Some r \<longrightarrow>
        select_row h db' = Some (r\<lparr>status := TOKEN_APPROVED, approved_at := Some now\<rparr>) \<and>
        map_option token (select_row h db') = Some (token r)) \<and>
     (out \<noteq> Renewed \<longrightarrow> db' = db)"
proof (cases "select_row h db")
  case None
  then show ?thesis using assms
    by (simp add: cli_renew_token_def get_token_by_hostname_def)
next
  case (Some r)
  show ?thesis
  proof (cases "token r \<noteq> [] \<and> status r = TOKEN_REVOKED")
    case False
    then have "cli_renew_token target clients now db = Inr ((h, NoTokenFound), db) \<or>
        cli_renew_token target clients now db = Inr ((h, NotRevoked), db)"
      using assms Some
      by (auto simp: cli_renew_token_def get_token_by_hostname_def TOKEN_REVOKED_def Let_def)
    then show ?thesis using False Some by auto
  next
    case True
    then have na: "status r \<noteq> TOKEN_APPROVED" by (auto simp: token_consts)
    obtain db' where ap: "approve_token h now db = ((True, Some (token r)), db')"
      using approve_token_row [OF Some, of now] by (cases "approve_token h now db") auto
    have "cli_renew_token target clients now db =
        Inr ((h, Renewed), snd (approve_token h now db))"
      using assms Some True ap
      by (simp add: cli_renew_token_def get_token_by_hostname_def TOKEN_REVOKED_def Let_def)
    then show ?thesis
      using Some True na approve_token_row [OF Some, of now] by simp
  qed
qed


theorem renew_token_only_revoked_witness:
  "\<exists>out db'. cli_renew_token (cps ''A'') [] 9 [demo_row TOKEN_REVOKED] = Inr ((cps ''A'', out), db') \<and>
     out = Renewed \<and>
     select_row (cps ''A'') db' =
       Some ((demo_row TOKEN_REVOKED)\<lparr>status := TOKEN_APPROVED, approved_at := Some 9\<rparr>)"
proof -
  have g: "get_hostname_by_number (cps ''A'') [] = Inr None"
    by code_simp
  have o: "cps ''A'' = or_else None (cps ''A'')"
    by (simp add: or_else_def)
  have s: "select_row (cps ''A'') [demo_row TOKEN_REVOKED] = Some (demo_row TOKEN_REVOKED)"
    by (simp add: select_row_def demo_row_def)
  have t: "token (demo_row TOKEN_REVOKED) \<noteq> []" "status (demo_row TOKEN_REVOKED) = TOKEN_REVOKED"
    by (simp_all add: demo_row_def cps_def)
  from renew_token_only_revoked [OF g o, of 9 "[demo_row TOKEN_REVOKED]"]
  obtain out db' where
    r: "cli_renew_token (cps ''A'') [] 9 [demo_row TOKEN_REVOKED] = Inr ((cps ''A'', out), db')"
    and i: "(out = Renewed) =
       (\<exists>r. select_row (cps ''A'') [demo_row TOKEN_REVOKED] = Some r \<and> token r \<noteq> [] \<and>
            status r = TOKEN_REVOKED)"
    and u: "\<forall>r. out = Renewed \<and> select_row (cps ''A'') [demo_row TOKEN_REVOKED] = Some r \<longrightarrow>
        select_row (cps ''A'') db' = Some (r\<lparr>status := TOKEN_APPROVED, approved_at := Some 9\<rparr>) \<and>
        map_option token (select_row (cps ''A'') db') = Some (token r)"
    by blast
  have "out = Renewed" using i s t by simp
  then show ?thesis using r u s by blast
qed

lemma py_getitem_in_range:
  "0 \<le> i \<Longrightarrow> i < int (length xs) \<Longrightarrow> py_getitem xs i = Inr (xs ! nat i)"
  by (simp add: py_getitem_def)

lemma get_pending_hostname_by_number_eq:
  "get_pending_hostname_by_number number db =
     (case py_int number of
        Inl e \<Rightarrow> Inr None
      | Inr num \<Rightarrow>
          if 1 \<le> num \<and> num \<le> int (length (get_pending_requests db))
          then Inr (Some (fst (get_pending_requests db ! nat (num - 1))))
          else Inr None)"
proof (cases "py_int number")
  case (Inl e)
  then have "e = ValueError" by (auto simp: py_int_def Let_def split: option.splits prod.splits if_splits)
  with Inl show ?thesis by (simp add: get_pending_hostname_by_number_def catch_value_index_def)
next
  case (Inr n)
  then show ?thesis
    by (simp add: get_pending_hostname_by_number_def catch_value_index_def Let_def
        py_getitem_in_range)
qed

lemma find_index_out_of_range:
  assumes "\<not> (1 \<le> num \<and> num \<le> int (length cs))"
  shows "find (\<lambda>(idx, h, info). int idx = num) (get_clients_list cs) = None"
proof -
  have "1 \<le> fst x \<and> fst x \<le> length cs" if "x \<in> set (get_clients_list cs)" for x
  proof -
    obtain a b where x: "x = (a, b)" by (cases x)
    with that have "(a, b) \<in> set (zip [1..<Suc (length cs)] cs)"
      by (simp only: get_clients_list_def)
    then have "a \<in> set [1..<Suc (length cs)]" by (rule set_zip_leftD)
    then have "1 \<le> a \<and> a < Suc (length cs)" by (simp only: set_upt atLeastLessThan_iff)
    with x show ?thesis by simp
  qed
  then have ne: "int (fst x) \<noteq> num" if "x \<in> set (get_clients_list cs)" for x
    using that assms by fastforce
  have "\<not> (\<exists>x. x \<in> set (get_clients_list cs) \<and> (case x of (idx, h, info) \<Rightarrow> int idx = num))"
  proof (rule notI, elim exE conjE)
    fix x
    assume m: "x \<in> set (get_clients_list cs)"
      and p: "case x of (idx, h, info) \<Rightarrow> int idx = num"
    obtain a b c where "x = (a, b, c)" by (cases x) auto
    with ne [OF m] p show False by simp
  qed
  then show ?thesis unfolding find_None_iff .
qed

lemma get_hostname_by_number_eq:
  "get_hostname_by_number number clients =
     (case py_int number of
        Inl e \<Rightarrow> Inr None
      | Inr num \<Rightarrow>
          Inr (map_option (\<lambda>(idx, h, info). h)
                 (find (\<lambda>(idx, h, info). int idx = num) (get_clients_list clients))))"
proof (cases "py_int number")
  case (Inl e)
  then have "e = ValueError" by (auto simp: py_int_def Let_def split: option.splits prod.splits if_splits)
  with Inl show ?thesis by (simp add: get_hostname_by_number_def catch_value_index_def)
next
  case (Inr n)
  then show ?thesis
    by (auto simp: get_hostname_by_number_def catch_value_index_def split: option.splits)
qed

text \<open>
  C9. The two resolvers never raise. When the argument is not an integer, or is an
  integer that is not a 1-based index into the current list, they return \<open>None\<close>, and
  \<open>approve\<close> and \<open>deny\<close> of the console (and \<open>renew\<close>, which resolves
  against the connected clients as \<open>revoke\<close>, \<open>delete\<close> and \<open>use\<close> do) then act
  on the argument itself as a hostname: no out-of-range error is reported.
\<close>

theorem ordinal_resolution_falls_back:
  "(\<exists>r. get_pending_hostname_by_number number db = Inr r) \<and>
   (\<exists>r. get_hostname_by_number number clients = Inr r) \<and>
   ((\<forall>n. py_int number = Inr n \<longrightarrow> \<not> (1 \<le> n \<and> n \<le> int (length (get_pending_requests db)))) \<longrightarrow>
      get_pending_hostname_by_number number db = Inr None \<and>
      cli_approve_token number now db =
        Inr ((number, fst (fst (approve_token number now db))), snd (approve_token number now db)) \<and>
      cli_deny_token number db =
        Inr ((number, fst (deny_token number db)), snd (deny_token number db))) \<and>
   ((\<forall>n. py_int number = Inr n \<longrightarrow> \<not> (1 \<le> n \<and> n \<le> int (length clients))) \<longrightarrow>
      get_hostname_by_number number clients = Inr None \<and>
      (\<exists>out db'. cli_renew_token number clients now db = Inr ((number, out), db')))"
proof (intro conjI impI)
  show "\<exists>r. get_pending_hostname_by_number number db = Inr r"
    by (simp add: get_pending_hostname_by_number_eq split: sum.splits)
  show "\<exists>r. get_hostname_by_number number clients = Inr r"
    by (simp add: get_hostname_by_number_eq split: sum.splits)
next
  assume a: "\<forall>n. py_int number = Inr n \<longrightarrow> \<not> (1 \<le> n \<and> n \<le> int (length (get_pending_requests db)))"
  then show p: "get_pending_hostname_by_number number db = Inr None"
    by (auto simp: get_pending_hostname_by_number_eq split: sum.splits)
  show "cli_approve_token number now db =
        Inr ((number, fst (fst (approve_token number now db))), snd (approve_token number now db))"
    by (simp add: cli_approve_token_def p or_else_def split: prod.splits)
  show "cli_deny_token number db =
        Inr ((number, fst (deny_token number db)), snd (deny_token number db))"
    by (simp add: cli_deny_token_def p or_else_def split: prod.splits)
next
  assume "\<forall>n. py_int number = Inr n \<longrightarrow> \<not> (1 \<le> n \<and> n \<le> int (length clients))"
  then show g: "get_hostname_by_number number clients = Inr None"
    by (auto simp: get_hostname_by_number_eq find_index_out_of_range split: sum.splits)
  show "\<exists>out db'. cli_renew_token number clients now db = Inr ((number, out), db')"
    by (simp add: cli_renew_token_def g or_else_def Let_def split: prod.splits)
qed

theorem ordinal_resolution_falls_back_witness:
  "py_int (cps ''5'') = Inr 5 \<and> length (get_pending_requests [five_row]) = 1 \<and>
   cli_approve_token (cps ''5'') 9 [five_row] =
     Inr ((cps ''5'', True), [five_row\<lparr>status := TOKEN_APPROVED, approved_at := Some 9\<rparr>])"
proof -
  have i: "py_int (cps ''5'') = Inr 5" by code_simp
  have l: "length (get_pending_requests [five_row]) = 1"
    by (simp add: get_pending_requests_def five_row_def TOKEN_PENDING_def)
  have a: "approve_token (cps ''5'') 9 [five_row] =
      ((True, Some (cps ''cc'')), [five_row\<lparr>status := TOKEN_APPROVED, approved_at := Some 9\<rparr>])"
    by (simp add: approve_token_def select_row_def five_row_def update_rows_def token_consts)
  show ?thesis
    using ordinal_resolution_falls_back [of "cps ''5''" "[five_row]" "[]" 9] i l a
    by simp
qed

section \<open>Properties of the framing\<close>

lemma be32_digits:
  fixes n :: nat
  assumes "n < 2 ^ 32"
  shows "(n div 2 ^ 24) mod 256 * 2 ^ 24 + (n div 2 ^ 16) mod 256 * 2 ^ 16
          + (n div 2 ^ 8) mod 256 * 2 ^ 8 + n mod 256 = n"
proof -
  define q1 where "q1 = n div 256"
  define q2 where "q2 = q1 div 256"
  define q3 where "q3 = q2 div 256"
  have e1: "n = q1 * 256 + n mod 256" by (simp add: q1_def)
  have e2: "q1 = q2 * 256 + q1 mod 256" by (simp add: q2_def)
  have e3: "q2 = q3 * 256 + q2 mod 256" by (simp add: q3_def)
  have d2: "n div 2 ^ 16 = q2"
    unfolding q2_def q1_def by (simp add: div_mult2_eq)
  have d3: "n div 2 ^ 24 = q3"
    unfolding q3_def q2_def q1_def by (simp add: div_mult2_eq)
  have d1: "n div 2 ^ 8 = q1" by (simp add: q1_def)
  have "q3 < 256" using assms unfolding d3 [symmetric] by (simp add: less_mult_imp_div_less)
  then have m3: "q3 mod 256 = q3" by simp
  show ?thesis
    unfolding d1 d2 d3 m3 using e1 e2 e3 by simp
qed

lemma unpack_pack_be32:
  assumes "n < 2 ^ 32"
  shows "\<exists>hdr. pack_be32 n = Inr hdr \<and> length hdr = 4 \<and> unpack_be32 hdr = Inr n"
proof -
  have u: "unat (of_nat k :: byte) = k mod 256" for k
    by (simp add: unat_of_nat)
  show ?thesis
    using assms be32_digits [OF assms]
    by (simp add: pack_be32_def unpack_be32_def u del: of_nat_numeral)
qed

lemma utf8_decode_1:
  "a < 128 \<Longrightarrow> utf8_decode (a # rest) = a # utf8_decode rest"
  by simp

lemma utf8_decode_2:
  "2 \<le> a \<Longrightarrow> a < 32 \<Longrightarrow> b < 64 \<Longrightarrow>
   utf8_decode ((192 + a) # (128 + b) # rest) = (a * 64 + b) # utf8_decode rest"
  by (simp add: is_cont_def)

lemma utf8_decode_3:
  "a < 16 \<Longrightarrow> b < 64 \<Longrightarrow> c < 64 \<Longrightarrow> (a = 0 \<longrightarrow> 32 \<le> b) \<Longrightarrow> (a = 13 \<longrightarrow> b < 32) \<Longrightarrow>
   utf8_decode ((224 + a) # (128 + b) # (128 + c) # rest) =
     (a * 4096 + b * 64 + c) # utf8_decode rest"
  by (auto simp: is_cont_def)

lemma utf8_decode_4:
  "a < 5 \<Longrightarrow> b < 64 \<Longrightarrow> c < 64 \<Longrightarrow> d < 64 \<Longrightarrow> (a = 0 \<longrightarrow> 16 \<le> b) \<Longrightarrow> (a = 4 \<longrightarrow> b < 16) \<Longrightarrow>
   utf8_decode ((240 + a) # (128 + b) # (128 + c) # (128 + d) # rest) =
     (a * 262144 + b * 4096 + c * 64 + d) # utf8_decode rest"
  by (auto simp: is_cont_def)


lemma digits64_2: "(c::nat) div 64 * 64 + c mod 64 = c"
  by simp

lemma digits64_3: "(c::nat) div 4096 * 4096 + c div 64 mod 64 * 64 + c mod 64 = c"
proof -
  define q where "q = c div 64"
  define r0 where "r0 = c mod 64"
  define r1 where "r1 = q mod 64"
  define q2 where "q2 = q div 64"
  have a: "c div 4096 = q2" by (simp add: q2_def q_def div_mult2_eq)
  have e1: "c = q * 64 + r0" by (simp add: q_def r0_def)
  have e2: "q = q2 * 64 + r1" by (simp add: q2_def r1_def)
  have "q2 * 4096 + r1 * 64 + r0 = c" using e1 e2 by linarith
  then show ?thesis unfolding a q_def [symmetric] r1_def [symmetric] r0_def [symmetric] .
qed

lemma digits64_4:
  "(c::nat) div 262144 * 262144 + c div 4096 mod 64 * 4096 + c div 64 mod 64 * 64 + c mod 64 = c"
proof -
  define q where "q = c div 64"
  define r0 where "r0 = c mod 64"
  define r1 where "r1 = q mod 64"
  define q2 where "q2 = q div 64"
  define r2 where "r2 = q2 mod 64"
  define q3 where "q3 = q2 div 64"
  have a: "c div 4096 = q2" by (simp add: q2_def q_def div_mult2_eq)
  have b: "c div 262144 = q3" by (simp add: q3_def q2_def q_def div_mult2_eq)
  have e1: "c = q * 64 + r0" by (simp add: q_def r0_def)
  have e2: "q = q2 * 64 + r1" by (simp add: q2_def r1_def)
  have e3: "q2 = q3 * 64 + r2" by (simp add: q3_def r2_def)
  have "q3 * 262144 + r2 * 4096 + r1 * 64 + r0 = c" using e1 e2 e3 by linarith
  then show ?thesis
    unfolding a b q_def [symmetric] r2_def [symmetric] r1_def [symmetric] r0_def [symmetric] .
qed

lemma unat_byte: "k < 256 \<Longrightarrow> unat (of_nat k :: byte) = k"
  by (simp add: unat_of_nat)

lemma utf8_decode_encode_cp:
  assumes "utf8_encode_cp c = Inr bs"
  shows "utf8_decode (map unat bs @ rest) = c # utf8_decode rest"
proof -
  consider "c < 0x80" | "0x80 \<le> c" "c < 0x800" | "0x800 \<le> c" "c < 0xD800"
    | "0xE000 \<le> c" "c < 0x10000" | "0x10000 \<le> c" "c < 0x110000"
    using assms unfolding utf8_encode_cp_def by (cases "c < 0x80"; cases "c < 0x800"; cases "c < 0xD800"; cases "c < 0xE000"; cases "c < 0x10000"; cases "c < 0x110000") simp_all
  then show ?thesis
  proof cases
    case 1
    then have "bs = [of_nat c]" using assms by (simp add: utf8_encode_cp_def)
    then show ?thesis using 1 by (simp add: unat_byte)
  next
    case 2
    have bs: "bs = [of_nat (192 + c div 64), of_nat (128 + c mod 64)]"
      using assms 2 by (simp add: utf8_encode_cp_def)
    have r: "2 \<le> c div 64" "c div 64 < 32" "c mod 64 < 64" using 2 by auto
    then have u: "map unat bs = [192 + c div 64, 128 + c mod 64]"
      unfolding bs by (simp add: unat_byte del: of_nat_add of_nat_numeral)
    show ?thesis unfolding u using utf8_decode_2 [OF r, of rest] digits64_2 [of c] by simp
  next
    case 3
    have bs: "bs = [of_nat (224 + c div 4096), of_nat (128 + c div 64 mod 64), of_nat (128 + c mod 64)]"
      using assms 3 by (simp add: utf8_encode_cp_def)
    have r: "c div 4096 < 16" "c div 64 mod 64 < 64" "c mod 64 < 64"
      "c div 4096 = 0 \<longrightarrow> 32 \<le> c div 64 mod 64" "c div 4096 = 13 \<longrightarrow> c div 64 mod 64 < 32"
      using 3 digits64_3 [of c] by auto
    then have u: "map unat bs = [224 + c div 4096, 128 + c div 64 mod 64, 128 + c mod 64]"
      unfolding bs by (simp add: unat_byte del: of_nat_add of_nat_numeral)
    show ?thesis unfolding u using utf8_decode_3 [OF r, of rest] digits64_3 [of c] by simp
  next
    case 4
    have bs: "bs = [of_nat (224 + c div 4096), of_nat (128 + c div 64 mod 64), of_nat (128 + c mod 64)]"
      using assms 4 by (simp add: utf8_encode_cp_def)
    have r: "c div 4096 < 16" "c div 64 mod 64 < 64" "c mod 64 < 64"
      "c div 4096 = 0 \<longrightarrow> 32 \<le> c div 64 mod 64" "c div 4096 = 13 \<longrightarrow> c div 64 mod 64 < 32"
      using 4 digits64_3 [of c] by auto
    then have u: "map unat bs = [224 + c div 4096, 128 + c div 64 mod 64, 128 + c mod 64]"
      unfolding bs by (simp add: unat_byte del: of_nat_add of_nat_numeral)
    show ?thesis unfolding u using utf8_decode_3 [OF r, of rest] digits64_3 [of c] by simp
  next
    case 5
    have bs: "bs = [of_nat (240 + c div 262144), of_nat (128 + c div 4096 mod 64),
        of_nat (128 + c div 64 mod 64), of_nat (128 + c mod 64)]"
      using assms 5 by (simp add: utf8_encode_cp_def)
    have r: "c div 262144 < 5" "c div 4096 mod 64 < 64" "c div 64 mod 64 < 64" "c mod 64 < 64"
      "c div 262144 = 0 \<longrightarrow> 16 \<le> c div 4096 mod 64" "c div 262144 = 4 \<longrightarrow> c div 4096 mod 64 < 16"
      using 5 digits64_4 [of c] by auto
    then have u: "map unat bs = [240 + c div 262144, 128 + c div 4096 mod 64,
        128 + c div 64 mod 64, 128 + c mod 64]"
      unfolding bs by (simp add: unat_byte del: of_nat_add of_nat_numeral)
    show ?thesis unfolding u using utf8_decode_4 [OF r, of rest] digits64_4 [of c] by simp
  qed
qed

lemma decode_encode_utf8:
  "utf8_encode t = Inr data \<Longrightarrow> decode_utf8_replace data = t"
proof (induction t arbitrary: data)
  case Nil
  then show ?case by (simp add: decode_utf8_replace_def)
next
  case (Cons c cs)
  from Cons.prems obtain b bs where
    b: "utf8_encode_cp c = Inr b" and bs: "utf8_encode cs = Inr bs" and d: "data = b @ bs"
    by (auto split: sum.splits)
  have "utf8_decode (map unat b @ map unat bs) = c # utf8_decode (map unat bs)"
    by (rule utf8_decode_encode_cp [OF b])
  then show ?case
    using Cons.IH [OF bs] by (simp add: d decode_utf8_replace_def)
qed

lemma utf8_encode_cp_nonempty: "utf8_encode_cp c = Inr b \<Longrightarrow> b \<noteq> []"
  by (auto simp: utf8_encode_cp_def split: if_splits)

text \<open>Reading from a stream whose next octets have arrived, in whatever pieces.\<close>

lemma recv_exact_loop_data:
  assumes "[] \<notin> set xs" and "\<not> closed s" and "incoming s = map Data xs @ later"
    and "length data \<le> n" and "n \<le> length data + length (concat xs)"
  shows "\<exists>s' ys. recv_exact_loop s n data =
            (Inr (Some (data @ take (n - length data) (concat xs))), s') \<and>
          incoming s' = map Data ys @ later \<and> [] \<notin> set ys \<and>
          concat ys = drop (n - length data) (concat xs) \<and>
          closed s' = closed s \<and> outgoing s' = outgoing s \<and> capacity s' = capacity s"
  using assms
proof (induction xs arbitrary: s data)
  case Nil
  then have "length data = n" by simp
  then show ?case using Nil by (simp add: recv_exact_loop.simps)
next
  case (Cons x xs)
  show ?case
  proof (cases "length data < n")
    case False
    then have "length data = n" using Cons.prems by simp
    then show ?thesis using Cons.prems
      by (simp add: recv_exact_loop.simps) (rule exI [of _ "x # xs"], simp)
  next
    case True
    define k where "k = n - length data"
    have k: "0 < k" using True by (simp add: k_def)
    have x: "x \<noteq> []" using Cons.prems by auto
    show ?thesis
    proof (cases "length x \<le> k")
      case le: True
      define s1 where "s1 = s\<lparr>incoming := map Data xs @ later\<rparr>"
      have r: "recv s k = (Inr x, s1)"
        using Cons.prems le by (simp add: recv_def s1_def)
      have step: "recv_exact_loop s n data = recv_exact_loop s1 n (data @ x)"
        using True r x by (subst recv_exact_loop.simps) (simp add: k_def)
      have "\<exists>s' ys. recv_exact_loop s1 n (data @ x) =
            (Inr (Some ((data @ x) @ take (n - length (data @ x)) (concat xs))), s') \<and>
          incoming s' = map Data ys @ later \<and> [] \<notin> set ys \<and>
          concat ys = drop (n - length (data @ x)) (concat xs) \<and>
          closed s' = closed s1 \<and> outgoing s' = outgoing s1 \<and> capacity s' = capacity s1"
        using Cons.prems le by (intro Cons.IH) (auto simp: s1_def k_def)
      then show ?thesis
        using le unfolding step by (auto simp: s1_def k_def)
    next
      case gt: False
      define s1 where "s1 = s\<lparr>incoming := Data (drop k x) # map Data xs @ later\<rparr>"
      have r: "recv s k = (Inr (take k x), s1)"
        using Cons.prems gt by (simp add: recv_def s1_def)
      have tk: "take k x \<noteq> []" using k x by (cases x) (auto simp: take_Cons')
      have step: "recv_exact_loop s n data = recv_exact_loop s1 n (data @ take k x)"
        using True r tk by (subst recv_exact_loop.simps) (simp add: k_def)
      have fin: "recv_exact_loop s1 n (data @ take k x) = (Inr (Some (data @ take k x)), s1)"
        using gt True by (subst recv_exact_loop.simps) (simp add: k_def)
      show ?thesis
        unfolding step fin
        using gt Cons.prems
        by (intro exI [of _ s1] exI [of _ "drop k x # xs"]) (auto simp: s1_def k_def)
    qed
  qed
qed

lemma recv_exact_data:
  assumes "[] \<notin> set xs" and "\<not> closed s" and "incoming s = map Data xs @ later"
    and "n \<le> length (concat xs)"
  shows "\<exists>s' ys. recv_exact s n = (Inr (Some (take n (concat xs))), s') \<and>
          incoming s' = map Data ys @ later \<and> [] \<notin> set ys \<and>
          concat ys = drop n (concat xs) \<and>
          closed s' = closed s \<and> outgoing s' = outgoing s \<and> capacity s' = capacity s"
  using recv_exact_loop_data [OF assms(1-3), of "[]" n] assms(4)
  by (simp add: recv_exact_def)

lemma recv_message_frame:
  assumes xs: "[] \<notin> set xs" and r: "\<not> closed r" "incoming r = map Data xs @ later"
    and hdr: "pack_be32 (length data) = Inr hdr"
    and data: "data \<noteq> []" "length data \<le> MAX_MESSAGE_SIZE"
    and wire: "concat xs = hdr @ data @ extra"
  shows "\<exists>r' ys. recv_message r = (Inr (Some (decode_utf8_replace data)), r') \<and>
           incoming r' = map Data ys @ later \<and> concat ys = extra \<and> [] \<notin> set ys \<and>
           closed r' = closed r \<and> outgoing r' = outgoing r \<and> capacity r' = capacity r"
proof -
  have lt: "length data < 2 ^ 32"
    using hdr by (simp add: pack_be32_def split: if_splits)
  from unpack_pack_be32 [OF lt] hdr
  have h4: "length hdr = 4" and un: "unpack_be32 hdr = Inr (length data)" by auto
  have "4 \<le> length (concat xs)" using wire h4 by simp
  from recv_exact_data [OF xs r this]
  obtain s1 ys where s1: "recv_exact r 4 = (Inr (Some (take 4 (concat xs))), s1)"
    and i1: "incoming s1 = map Data ys @ later" and n1: "[] \<notin> set ys"
    and c1: "concat ys = drop 4 (concat xs)" and cl1: "closed s1 = closed r"
    and o1: "outgoing s1 = outgoing r" "capacity s1 = capacity r"
    by blast
  have t4: "take 4 (concat xs) = hdr" and d4: "concat ys = data @ extra"
    using wire h4 c1 by simp_all
  have "length data \<le> length (concat ys)" using d4 by simp
  from recv_exact_data [OF n1 _ i1 this] cl1 r(1)
  obtain s2 zs where s2: "recv_exact s1 (length data) = (Inr (Some (take (length data) (concat ys))), s2)"
    and i2: "incoming s2 = map Data zs @ later" and n2: "[] \<notin> set zs"
    and c2: "concat zs = drop (length data) (concat ys)"
    and o2: "closed s2 = closed s1" "outgoing s2 = outgoing s1" "capacity s2 = capacity s1"
    by auto
  have hne: "hdr \<noteq> []" using h4 by auto
  have "recv_message_body r = (Inr (Some (decode_utf8_replace data)), s2)"
    using s1 s2 un data hne by (simp add: recv_message_body_def t4 d4)
  then have "recv_message r = (Inr (Some (decode_utf8_replace data)), s2)"
    by (simp add: recv_message_def)
  then show ?thesis using i2 c2 d4 n2 o2 o1 cl1 by auto
qed

lemma send_message_frame:
  assumes "payload_bytes m = Inr data" and "pack_be32 (length data) = Inr hdr"
    and "\<not> closed s" and "capacity s = None"
  shows "send_message s m = (True, s\<lparr>outgoing := outgoing s @ hdr @ data\<rparr>)"
  using assms by (simp add: send_message_def send_message_body_def sendall_def)

text \<open>
  C6 (as amended). A payload that is a text, or the UTF-8 octets of a text, and whose
  encoding has between 1 octet and the maximum message size, sent with
  \<open>send_message\<close> over a transport that takes it and received with \<open>recv_message\<close>
  from a stream that delivers the octets written, in whatever pieces, comes out as that
  text.
\<close>

theorem framing_round_trip:
  assumes "payload_bytes m = Inr data" and "utf8_encode t = Inr data"
    and "data \<noteq> []" and "length data \<le> MAX_MESSAGE_SIZE"
    and "\<not> closed s" and "capacity s = None"
    and "\<not> closed r" and "incoming r = map Data xs @ later" and "[] \<notin> set xs"
    and "outgoing (snd (send_message s m)) = outgoing s @ concat xs"
  shows "fst (send_message s m) \<and> fst (recv_message r) = Inr (Some t)"
proof -
  have "length data < 2 ^ 32" using assms(4) by (simp add: MAX_MESSAGE_SIZE_def)
  from unpack_pack_be32 [OF this]
  obtain hdr where hdr: "pack_be32 (length data) = Inr hdr" by blast
  have sent: "send_message s m = (True, s\<lparr>outgoing := outgoing s @ hdr @ data\<rparr>)"
    by (rule send_message_frame [OF assms(1) hdr assms(5,6)])
  then have wire: "concat xs = hdr @ data @ []" using assms(10) by simp
  from recv_message_frame [OF assms(9,7,8) hdr assms(3,4) wire]
  have "fst (recv_message r) = Inr (Some (decode_utf8_replace data))" by auto
  then show ?thesis using sent decode_encode_utf8 [OF assms(2)] by simp
qed

lemma hi_bytes: "utf8_encode (cps ''hi'') = Inr [104, 105]"
  by (simp add: cps_def utf8_encode_cp_def)

lemma pack_2: "pack_be32 (length [104 :: byte, 105]) = Inr [0, 0, 0, 2]"
  by (simp add: pack_be32_def)

theorem framing_round_trip_witness:
  "fst (send_message sock0 (Str (cps ''hi''))) \<and>
   fst (recv_message (sock0\<lparr>incoming := [Data [0, 0, 0], Data [2, 104], Data [105]]\<rparr>)) =
     Inr (Some (cps ''hi''))"
proof -
  have p: "payload_bytes (Str (cps ''hi'')) = Inr [104, 105]"
    by (simp add: payload_bytes_def hi_bytes)
  have w: "outgoing (snd (send_message sock0 (Str (cps ''hi'')))) =
      outgoing sock0 @ concat [[0, 0, 0], [2, 104], [105]]"
    using send_message_frame [OF p pack_2, of sock0] by (simp add: sock0_def)
  show ?thesis
    using framing_round_trip [OF p hi_bytes _ _ _ _ _ _ _ w,
        of "sock0\<lparr>incoming := [Data [0, 0, 0], Data [2, 104], Data [105]]\<rparr>" "[]"]
    by (simp add: sock0_def MAX_MESSAGE_SIZE_def)
qed

lemma recv_exact_loop_done: "n \<le> length data \<Longrightarrow> recv_exact_loop s n data = (Inr (Some data), s)"
  by (subst recv_exact_loop.simps) simp

lemma recv_exact_loop_step:
  "length data < n \<Longrightarrow> recv s (n - length data) = (Inr chunk, s') \<Longrightarrow> chunk \<noteq> [] \<Longrightarrow>
   recv_exact_loop s n data = recv_exact_loop s' n (data @ chunk)"
  by (subst recv_exact_loop.simps) simp

lemma recv_exact_loop_eof:
  "length data < n \<Longrightarrow> recv s (n - length data) = (Inr [], s') \<Longrightarrow>
   recv_exact_loop s n data = (Inr None, s')"
  by (subst recv_exact_loop.simps) simp

text \<open>
  C6 as stated fails: the receiver decodes the payload to text, so the one octet
  \<open>0xFF\<close>, which is not UTF-8, arrives as the replacement character, whose octets
  are \<open>EF BF BD\<close>.
\<close>

theorem bytes_round_trip_counterexample:
  "send_message sock0 (Bytes [0xFF]) = (True, sock0\<lparr>outgoing := [0, 0, 0, 1, 0xFF]\<rparr>) \<and>
   fst (recv_message (sock0\<lparr>incoming := [Data [0, 0, 0, 1, 0xFF]]\<rparr>)) = Inr (Some [0xFFFD]) \<and>
   utf8_encode [0xFFFD] = Inr [0xEF, 0xBF, 0xBD]"
proof -
  have p1: "pack_be32 (length [0xFF :: byte]) = Inr [0, 0, 0, 1]" by (simp add: pack_be32_def)
  have pb: "payload_bytes (Bytes [0xFF]) = Inr [0xFF]" by (simp add: payload_bytes_def)
  have a: "send_message sock0 (Bytes [0xFF]) = (True, sock0\<lparr>outgoing := [0, 0, 0, 1, 0xFF]\<rparr>)"
    using send_message_frame [OF pb p1, of sock0] by (simp add: sock0_def)
  have h: "recv_exact (sock0\<lparr>incoming := [Data [0, 0, 0, 1, 0xFF]]\<rparr>) 4 =
      (Inr (Some [0, 0, 0, 1]), sock0\<lparr>incoming := [Data [0xFF]]\<rparr>)"
    unfolding recv_exact_def
    by (subst recv_exact_loop_step [where chunk = "[0, 0, 0, 1]" and s' = "sock0\<lparr>incoming := [Data [0xFF]]\<rparr>"])
      (simp_all add: recv_def sock0_def recv_exact_loop_done)
  have d: "recv_exact (sock0\<lparr>incoming := [Data [0xFF]]\<rparr>) (Suc 0) = (Inr (Some [0xFF]), sock0)"
    unfolding recv_exact_def
    by (subst recv_exact_loop_step [where chunk = "[0xFF]" and s' = sock0])
      (simp_all add: recv_def sock0_def recv_exact_loop_done)
  have u: "unpack_be32 [0, 0, 0, 1] = Inr 1" by (simp add: unpack_be32_def)
  have b: "fst (recv_message (sock0\<lparr>incoming := [Data [0, 0, 0, 1, 0xFF]]\<rparr>)) = Inr (Some [0xFFFD])"
    by (simp add: recv_message_def recv_message_body_def h d u MAX_MESSAGE_SIZE_def
        decode_utf8_replace_def REPLACEMENT_def)
  have c: "utf8_encode [0xFFFD] = Inr [0xEF, 0xBF, 0xBD]"
    by (simp add: utf8_encode_cp_def)
  show ?thesis using a b c by blast
qed


text \<open>
  The empty payload is framed and sent, and \<open>recv_message\<close> answers \<open>None\<close> for it
  as it does for a closed stream: \<open>if not message_data\<close> takes \<open>b''\<close> for \<open>None\<close>.
\<close>

lemma empty_payload_received_as_none:
  "send_message sock0 (Str []) = (True, sock0\<lparr>outgoing := [0, 0, 0, 0]\<rparr>) \<and>
   fst (recv_message (sock0\<lparr>incoming := [Data [0, 0, 0, 0]]\<rparr>)) = Inr None"
proof -
  have p0: "pack_be32 (length ([] :: bytes)) = Inr [0, 0, 0, 0]" by (simp add: pack_be32_def)
  have pb: "payload_bytes (Str []) = Inr []" by (simp add: payload_bytes_def)
  have a: "send_message sock0 (Str []) = (True, sock0\<lparr>outgoing := [0, 0, 0, 0]\<rparr>)"
    using send_message_frame [OF pb p0, of sock0] by (simp add: sock0_def)
  have h: "recv_exact (sock0\<lparr>incoming := [Data [0, 0, 0, 0]]\<rparr>) 4 = (Inr (Some [0, 0, 0, 0]), sock0)"
    unfolding recv_exact_def
    by (subst recv_exact_loop_step [where chunk = "[0, 0, 0, 0]" and s' = sock0])
      (simp_all add: recv_def sock0_def recv_exact_loop_done)
  have d: "recv_exact sock0 0 = (Inr (Some []), sock0)"
    by (simp add: recv_exact_def recv_exact_loop_done)
  have u: "unpack_be32 [0, 0, 0, 0] = Inr 0" by (simp add: unpack_be32_def)
  have "fst (recv_message (sock0\<lparr>incoming := [Data [0, 0, 0, 0]]\<rparr>)) = Inr None"
    by (simp add: recv_message_def recv_message_body_def h d u MAX_MESSAGE_SIZE_def)
  with a show ?thesis by blast
qed

lemma unpack_be32_nonempty: "unpack_be32 hdr = Inr n \<Longrightarrow> hdr \<noteq> []"
  by (auto simp: unpack_be32_def)

text \<open>
  C4 (as amended). When the four octets read declare a length above the maximum, the
  body of \<open>recv_message\<close> raises and \<open>recv_message\<close> returns \<open>None\<close>, with the
  socket as the read of the four octets left it: no octet of the payload is read. When
  the stream is shut down before the declared payload (or the length itself) is
  complete, \<open>recv_message\<close> returns \<open>None\<close> as well. The two cases differ inside the
  \<open>try\<close> statement only: the caller gets the same value.
\<close>

theorem oversized_frame_returns_none:
  "(recv_exact s 4 = (Inr (Some hdr), s1) \<and> unpack_be32 hdr = Inr n \<and> MAX_MESSAGE_SIZE < n \<longrightarrow>
      recv_message_body s = (Inl MessageSizeExceeded, s1) \<and> recv_message s = (Inr None, s1)) \<and>
   (recv_exact s 4 = (Inr (Some hdr), s1) \<and> unpack_be32 hdr = Inr n \<and> n \<le> MAX_MESSAGE_SIZE \<and>
    recv_exact s1 n = (Inr None, s2) \<longrightarrow>
      recv_message_body s = (Inr None, s2) \<and> recv_message s = (Inr None, s2)) \<and>
   (recv_exact s 4 = (Inr None, s1) \<longrightarrow>
      recv_message_body s = (Inr None, s1) \<and> recv_message s = (Inr None, s1))"
  by (auto simp: recv_message_def recv_message_body_def dest: unpack_be32_nonempty)

lemma oversized_header:
  "recv_exact oversized_sock 4 = (Inr (Some [0, 0xA0, 0, 1]), sock0\<lparr>incoming := [Data [97, 98, 99]]\<rparr>)"
  unfolding recv_exact_def oversized_sock_def
  by (subst recv_exact_loop_step [where chunk = "[0, 0xA0, 0, 1]"
        and s' = "sock0\<lparr>incoming := [Data [97, 98, 99]]\<rparr>"])
    (simp_all add: recv_def sock0_def recv_exact_loop_done)

lemma oversized_length: "unpack_be32 [0, 0xA0, 0, 1] = Inr 10485761"
  by (simp add: unpack_be32_def)

lemma truncated_header:
  "recv_exact truncated_sock 4 = (Inr (Some [0, 0, 0, 5]), sock0\<lparr>incoming := [Data [104, 105]]\<rparr>)"
  unfolding recv_exact_def truncated_sock_def
  by (subst recv_exact_loop_step [where chunk = "[0, 0, 0, 5]"
        and s' = "sock0\<lparr>incoming := [Data [104, 105]]\<rparr>"])
    (simp_all add: recv_def sock0_def recv_exact_loop_done)

lemma truncated_length: "unpack_be32 [0, 0, 0, 5] = Inr 5"
  by (simp add: unpack_be32_def)

lemma truncated_payload:
  "recv_exact (sock0\<lparr>incoming := [Data [104, 105]]\<rparr>) 5 = (Inr None, sock0)"
  unfolding recv_exact_def
  apply (subst recv_exact_loop_step [where chunk = "[104, 105]" and s' = sock0])
     apply (simp_all add: recv_def sock0_def)
  apply (subst recv_exact_loop_eof [where s' = "\<lparr>incoming = [], outgoing = [], capacity = None, closed = False\<rparr>"])
    apply (simp_all add: recv_def)
  done

theorem oversized_frame_returns_none_witness:
  "recv_message_body oversized_sock =
     (Inl MessageSizeExceeded, sock0\<lparr>incoming := [Data [97, 98, 99]]\<rparr>) \<and>
   recv_message oversized_sock = (Inr None, sock0\<lparr>incoming := [Data [97, 98, 99]]\<rparr>) \<and>
   recv_message_body truncated_sock = (Inr None, sock0) \<and>
   recv_message truncated_sock = (Inr None, sock0)"
  using oversized_frame_returns_none [of oversized_sock "[0, 0xA0, 0, 1]"
      "sock0\<lparr>incoming := [Data [97, 98, 99]]\<rparr>" 10485761 sock0]
    oversized_frame_returns_none [of truncated_sock "[0, 0, 0, 5]"
      "sock0\<lparr>incoming := [Data [104, 105]]\<rparr>" 5 sock0]
  by (simp add: oversized_header oversized_length truncated_header truncated_length
      truncated_payload MAX_MESSAGE_SIZE_def)

text \<open>
  C4 as stated fails: an oversized frame and a stream shut down in the middle of a
  payload give the caller of \<open>recv_message\<close> the same outcome, \<open>None\<close>.
\<close>

theorem oversized_not_distinct_counterexample:
  "fst (recv_message oversized_sock) = fst (recv_message truncated_sock)"
proof -
  have "recv_message_body oversized_sock =
      (Inl MessageSizeExceeded, sock0\<lparr>incoming := [Data [97, 98, 99]]\<rparr>)"
    by (simp add: recv_message_body_def oversized_header oversized_length MAX_MESSAGE_SIZE_def)
  moreover have "recv_message_body truncated_sock = (Inr None, sock0)"
    by (simp add: recv_message_body_def truncated_header truncated_length truncated_payload
        MAX_MESSAGE_SIZE_def)
  ultimately show ?thesis by (simp add: recv_message_def)
qed


section \<open>Properties of the session handlers\<close>

lemma split_from_zero: "split_from sep 0 acc s = [rev acc @ s]"
  by (cases s) simp_all

lemma split_from_field:
  "colon \<notin> set a \<Longrightarrow>
   split_from [colon] (Suc k) acc (a @ colon # rest) = (rev acc @ a) # split_from [colon] k [] rest"
  by (induction a arbitrary: acc) simp_all

lemma split_from_last:
  "colon \<notin> set a \<Longrightarrow> split_from [colon] k acc a = [rev acc @ a]"
  by (induction a arbitrary: acc) simp_all

lemma split_register:
  assumes "colon \<notin> set a" and "colon \<notin> set h"
  shows "py_split_max [colon] 2 (join_colon (join_colon a h) t) = [a, h, t]"
proof -
  have "split_from [colon] (Suc (Suc 0)) [] (a @ colon # (h @ colon # t)) =
      a # split_from [colon] (Suc 0) [] (h @ colon # t)"
    using split_from_field [OF assms(1), of "Suc 0" "[]" "h @ colon # t"] by simp
  also have "split_from [colon] (Suc 0) [] (h @ colon # t) = h # split_from [colon] 0 [] t"
    using split_from_field [OF assms(2), of 0 "[]" t] by simp
  finally show ?thesis
    by (simp add: py_split_max_def join_colon_def split_from_zero numeral_2_eq_2)
qed

lemma colon_notin_REGISTER: "colon \<notin> set MSG_REGISTER"
  by (simp add: msg_consts)

text \<open>
  The decision table of \<open>handle_registration\<close> for a message
  \<open>REGISTER:h:secret\<close> (the hostname is the text up to the second colon), when the
  secret presented is ASCII.
\<close>

lemma registration_decision_table:
  assumes h: "colon \<notin> set h"
    and msg: "msg = join_colon (join_colon MSG_REGISTER h) secret"
    and ascii: "is_ascii secret"
  shows "select_row h (w_tokens w) = None \<Longrightarrow>
           handle_registration fd addr sid msg w = (Inr None, reply_and_close fd TOKEN_INVALID w)"
    and "select_row h (w_tokens w) = Some r \<Longrightarrow> token r = [] \<or> status r = [] \<Longrightarrow>
           handle_registration fd addr sid msg w = (Inr None, reply_and_close fd TOKEN_INVALID w)"
    and "select_row h (w_tokens w) = Some r \<Longrightarrow> token r \<noteq> [] \<Longrightarrow> status r \<noteq> [] \<Longrightarrow>
         is_ascii (token r) \<Longrightarrow> secret \<noteq> token r \<Longrightarrow>
           handle_registration fd addr sid msg w = (Inr None, reply_and_close fd TOKEN_INVALID w)"
    and "select_row h (w_tokens w) = Some r \<Longrightarrow> token r \<noteq> [] \<Longrightarrow>
         is_ascii (token r) \<Longrightarrow> secret = token r \<Longrightarrow> status r = TOKEN_REVOKED \<Longrightarrow>
           handle_registration fd addr sid msg w = (Inr None, reply_and_close fd TOKEN_REVOKED w)"
    and "select_row h (w_tokens w) = Some r \<Longrightarrow> token r \<noteq> [] \<Longrightarrow>
         is_ascii (token r) \<Longrightarrow> secret = token r \<Longrightarrow> status r = TOKEN_APPROVED \<Longrightarrow>
           handle_registration fd addr sid msg w =
             (Inr (Some h),
              w\<lparr>w_clients := AList.update h \<lparr>session_id = sid, socket = fd, address = addr\<rparr>
                                 (w_clients w)\<rparr>)"
    and "select_row h (w_tokens w) = Some r \<Longrightarrow> token r \<noteq> [] \<Longrightarrow> status r \<noteq> [] \<Longrightarrow>
         is_ascii (token r) \<Longrightarrow> secret = token r \<Longrightarrow>
         status r \<noteq> TOKEN_REVOKED \<Longrightarrow> status r \<noteq> TOKEN_APPROVED \<Longrightarrow>
           handle_registration fd addr sid msg w = (Inr None, reply_and_close fd TOKEN_INVALID w)"
proof -
  have sp: "py_split_max [colon] 2 msg = [MSG_REGISTER, h, secret]"
    unfolding msg by (rule split_register [OF colon_notin_REGISTER h])
  show "select_row h (w_tokens w) = None \<Longrightarrow>
           handle_registration fd addr sid msg w = (Inr None, reply_and_close fd TOKEN_INVALID w)"
    by (simp add: handle_registration_def sp get_token_by_hostname_def)
  show "select_row h (w_tokens w) = Some r \<Longrightarrow> token r = [] \<or> status r = [] \<Longrightarrow>
           handle_registration fd addr sid msg w = (Inr None, reply_and_close fd TOKEN_INVALID w)"
    by (auto simp: handle_registration_def sp get_token_by_hostname_def)
  show "select_row h (w_tokens w) = Some r \<Longrightarrow> token r \<noteq> [] \<Longrightarrow> status r \<noteq> [] \<Longrightarrow>
         is_ascii (token r) \<Longrightarrow> secret \<noteq> token r \<Longrightarrow>
           handle_registration fd addr sid msg w = (Inr None, reply_and_close fd TOKEN_INVALID w)"
    using ascii
    by (auto simp: handle_registration_def sp get_token_by_hostname_def compare_digest_def
        format_opt_def)
  show "select_row h (w_tokens w) = Some r \<Longrightarrow> token r \<noteq> [] \<Longrightarrow>
         is_ascii (token r) \<Longrightarrow> secret = token r \<Longrightarrow> status r = TOKEN_REVOKED \<Longrightarrow>
           handle_registration fd addr sid msg w = (Inr None, reply_and_close fd TOKEN_REVOKED w)"
    by (simp add: handle_registration_def sp get_token_by_hostname_def compare_digest_def
        format_opt_def token_consts)
  show "select_row h (w_tokens w) = Some r \<Longrightarrow> token r \<noteq> [] \<Longrightarrow>
         is_ascii (token r) \<Longrightarrow> secret = token r \<Longrightarrow> status r = TOKEN_APPROVED \<Longrightarrow>
           handle_registration fd addr sid msg w =
             (Inr (Some h),
              w\<lparr>w_clients := AList.update h \<lparr>session_id = sid, socket = fd, address = addr\<rparr>
                                 (w_clients w)\<rparr>)"
    by (simp add: handle_registration_def sp get_token_by_hostname_def compare_digest_def
        format_opt_def token_consts)
  show "select_row h (w_tokens w) = Some r \<Longrightarrow> token r \<noteq> [] \<Longrightarrow> status r \<noteq> [] \<Longrightarrow>
         is_ascii (token r) \<Longrightarrow> secret = token r \<Longrightarrow>
         status r \<noteq> TOKEN_REVOKED \<Longrightarrow> status r \<noteq> TOKEN_APPROVED \<Longrightarrow>
           handle_registration fd addr sid msg w = (Inr None, reply_and_close fd TOKEN_INVALID w)"
    by (simp add: handle_registration_def sp get_token_by_hostname_def compare_digest_def
        format_opt_def TOKEN_REVOKED_def TOKEN_APPROVED_def)
qed

lemma register_msg_A:
  "cps ''REGISTER:A:aa'' = join_colon (join_colon MSG_REGISTER (cps ''A'')) (cps ''aa'')"
  by (simp add: msg_consts join_colon_def)

lemma select_row_world0:
  "select_row (cps ''A'') (w_tokens world0) = Some (demo_row TOKEN_APPROVED)"
  by (simp add: world0_def select_row_def demo_row_def)

lemma select_row_world0_clients:
  "select_row (cps ''A'') (w_tokens (world0\<lparr>w_clients := cs\<rparr>)) = Some (demo_row TOKEN_APPROVED)"
  by (simp add: world0_def select_row_def demo_row_def)

lemma demo_row_facts:
  "token (demo_row st) = cps ''aa''" "status (demo_row st) = st" "is_ascii (cps ''aa'')"
  "cps ''aa'' \<noteq> []" "colon \<notin> set (cps ''A'')"
  by (simp_all add: demo_row_def cps_def is_ascii_def colon_def)

text \<open>
  C2 fails on the code in its success case. Host \<open>A\<close> presents its approved secret:
  \<open>handle_registration\<close> enters the connection in the registry and returns the
  hostname, and the socket is as it was: nothing has been written to the peer, no
  \<open>TOKEN_STATUS:approved\<close>.
\<close>

theorem registration_approved_sends_no_reply:
  "handle_registration 1 peer_A (cps ''s1'') (cps ''REGISTER:A:aa'') world0 =
     (Inr (Some (cps ''A'')), world0\<lparr>w_clients := [entry_A (cps ''s1'') 1]\<rparr>) \<and>
   w_socks (snd (handle_registration 1 peer_A (cps ''s1'') (cps ''REGISTER:A:aa'') world0)) 1 = sock0 \<and>
   outgoing sock0 = [] \<and> \<not> closed sock0"
proof -
  have "handle_registration 1 peer_A (cps ''s1'') (cps ''REGISTER:A:aa'') world0 =
     (Inr (Some (cps ''A'')),
      world0\<lparr>w_clients := AList.update (cps ''A'')
         \<lparr>session_id = cps ''s1'', socket = 1, address = peer_A\<rparr> (w_clients world0)\<rparr>)"
    by (rule registration_decision_table(5) [OF demo_row_facts(5) register_msg_A demo_row_facts(3)
          select_row_world0])
      (simp_all add: demo_row_facts)
  then show ?thesis
    by (simp add: world0_def entry_A_def sock0_def)
qed

text \<open>
  A secret with a character outside ASCII, for a host that has a credential: the
  comparison raises, \<open>handle_registration\<close> is left by the exception and no reply has
  been sent.
\<close>

lemma registration_non_ascii_secret_raises:
  "handle_registration 1 peer_A (cps ''s1'') (cps ''REGISTER:A:'' @ [233]) world0 =
     (Inl TypeError, world0)"
proof -
  have m: "cps ''REGISTER:A:'' @ [233] = join_colon (join_colon MSG_REGISTER (cps ''A'')) [233]"
    by (simp add: msg_consts join_colon_def)
  have sp: "py_split_max [colon] 2 (cps ''REGISTER:A:'' @ [233]) = [MSG_REGISTER, cps ''A'', [233]]"
    unfolding m by (rule split_register [OF colon_notin_REGISTER demo_row_facts(5)])
  have ne: "cps ''aa'' \<noteq> [] \<and> TOKEN_APPROVED \<noteq> [] \<and> \<not> is_ascii [233]"
    by (simp add: token_consts is_ascii_def)
  show ?thesis
    unfolding handle_registration_def sp
    using ne
    by (simp add: get_token_by_hostname_def select_row_world0 demo_row_facts
        compare_digest_def format_opt_def)
qed

text \<open>What a refusal does to the socket: the status frame is written and the socket closed.\<close>

lemma reply_and_close_socket:
  assumes "\<not> closed (w_socks w fd)" and "capacity (w_socks w fd) = None"
    and "utf8_encode (join_colon MSG_TOKEN_STATUS st) = Inr data"
    and "pack_be32 (length data) = Inr hdr"
  shows "w_socks (reply_and_close fd st w) fd =
           (w_socks w fd)\<lparr>outgoing := outgoing (w_socks w fd) @ hdr @ data, closed := True\<rparr>"
    and "w_clients (reply_and_close fd st w) = w_clients w"
proof -
  have "payload_bytes (Str (join_colon MSG_TOKEN_STATUS st)) = Inr data"
    using assms(3) by (simp add: payload_bytes_def)
  from send_message_frame [OF this assms(4,1,2)]
  show "w_socks (reply_and_close fd st w) fd =
           (w_socks w fd)\<lparr>outgoing := outgoing (w_socks w fd) @ hdr @ data, closed := True\<rparr>"
    by (simp add: reply_and_close_def w_send_def w_close_def close_def)
  show "w_clients (reply_and_close fd st w) = w_clients w"
    by (simp add: reply_and_close_def w_send_def w_close_def split: prod.splits)
qed

lemma reply_and_close_closed: "closed (w_socks (reply_and_close fd st w) fd)"
  by (simp add: reply_and_close_def w_close_def close_def)

lemma keep_alive_never_returns: "keep_alive fuel w = (Running, w)"
  by (induction fuel) (simp_all add: time_sleep_def)

lemma register_not_token_request:
  "startswith msg MSG_REGISTER \<Longrightarrow> \<not> startswith msg MSG_TOKEN_REQUEST"
  by (cases msg) (auto simp: startswith_def msg_consts)

lemma handle_registration_success:
  assumes "handle_registration fd addr sid msg w = (Inr (Some h), w')"
  shows "w' = w\<lparr>w_clients := AList.update h \<lparr>session_id = sid, socket = fd, address = addr\<rparr>
                               (w_clients w)\<rparr>"
  using assms unfolding handle_registration_def
  by (auto split: list.splits prod.splits sum.splits if_splits bool.splits)

lemma not_found_only_when_absent:
  assumes "map_of (w_clients w) h \<noteq> None"
  shows "fst (send_command_to_client h cmd w) \<noteq> (None, cps ''Client not found or not authenticated'')"
proof -
  have ne: "cps ''Failed to send command'' \<noteq> cps ''Client not found or not authenticated''"
    "cps ''Timeout waiting for response'' \<noteq> cps ''Client not found or not authenticated''"
    "cps ''Error: '' \<noteq> cps ''Client not found or not authenticated''"
    "cps ''No response from client (may be disconnected)'' \<noteq> cps ''Client not found or not authenticated''"
    "cps ''Invalid response format'' \<noteq> cps ''Client not found or not authenticated''"
    "cps ''Error: list index out of range'' \<noteq> cps ''Client not found or not authenticated''"
    by (simp_all add: cps_def)
  from assms obtain ci where ci: "map_of (w_clients w) h = Some ci" by auto
  show ?thesis
    unfolding send_command_to_client_def ci
    using ne
    by (auto split: prod.splits bool.splits sum.splits option.splits list.splits if_splits)
qed

text \<open>
  C3 fails on the code. After a registration has succeeded, the handler is in
  \<open>while True: time.sleep(60)\<close>: whatever fuel it is given it has not returned, its
  teardown has not run, and the state is the one the registration left, with the entry
  in the registry. In every state with that registry, whatever has become of the
  transport, \<open>send_command_to_client\<close> does not answer that the client was not found.
\<close>

theorem registered_entry_never_removed:
  assumes "w_recv fd w = (Inr (Some msg), w1)" and "startswith msg MSG_REGISTER"
    and "handle_registration fd addr sid msg w1 = (Inr (Some h), w2)" and "h \<noteq> []"
  shows "handle_client fuel fd addr sid tok now w = (Running, w2) \<and>
         map_of (w_clients w2) h \<noteq> None \<and>
         (\<forall>w'. w_clients w' = w_clients w2 \<longrightarrow>
            fst (send_command_to_client h cmd w') \<noteq>
              (None, cps ''Client not found or not authenticated''))"
proof -
  have m: "msg \<noteq> []" using assms(2) by (auto simp: startswith_def msg_consts)
  have "handle_client_body fuel fd addr sid tok now w = ((Running, Some h), w2)"
    using assms m register_not_token_request [OF assms(2)]
    by (simp add: handle_client_body_def format_opt_def keep_alive_never_returns)
  then have a: "handle_client fuel fd addr sid tok now w = (Running, w2)"
    by (simp add: handle_client_def)
  have b: "map_of (w_clients w2) h \<noteq> None"
    using handle_registration_success [OF assms(3)] by (simp add: update_conv')
  have c: "fst (send_command_to_client h cmd w') \<noteq>
              (None, cps ''Client not found or not authenticated'')"
    if "w_clients w' = w_clients w2" for w'
    using not_found_only_when_absent [of w' h cmd] b that by simp
  show ?thesis using a b c by blast
qed

lemma recv_register_frame:
  "recv_message (sock0\<lparr>incoming := [Data register_frame]\<rparr>) =
     (Inr (Some (cps ''REGISTER:A:aa'')), sock0)"
proof -
  have h: "recv_exact (sock0\<lparr>incoming := [Data register_frame]\<rparr>) 4 =
      (Inr (Some [0, 0, 0, 13]),
       sock0\<lparr>incoming := [Data [82, 69, 71, 73, 83, 84, 69, 82, 58, 65, 58, 97, 97]]\<rparr>)"
    unfolding recv_exact_def register_frame_def
    by (subst recv_exact_loop_step [where chunk = "[0, 0, 0, 13]"
          and s' = "sock0\<lparr>incoming := [Data [82, 69, 71, 73, 83, 84, 69, 82, 58, 65, 58, 97, 97]]\<rparr>"])
      (simp_all add: recv_def sock0_def recv_exact_loop_done)
  have d: "recv_exact (sock0\<lparr>incoming := [Data [82, 69, 71, 73, 83, 84, 69, 82, 58, 65, 58, 97, 97]]\<rparr>) 13 =
      (Inr (Some [82, 69, 71, 73, 83, 84, 69, 82, 58, 65, 58, 97, 97]), sock0)"
    unfolding recv_exact_def
    by (subst recv_exact_loop_step [where chunk = "[82, 69, 71, 73, 83, 84, 69, 82, 58, 65, 58, 97, 97]"
          and s' = sock0])
      (simp_all add: recv_def sock0_def recv_exact_loop_done)
  have u: "unpack_be32 [0, 0, 0, 13] = Inr 13" by (simp add: unpack_be32_def)
  show ?thesis
    by (simp add: recv_message_def recv_message_body_def h d u MAX_MESSAGE_SIZE_def
        decode_utf8_replace_def cps_def)
qed

lemma w_recv_world1: "w_recv 1 world1 = (Inr (Some (cps ''REGISTER:A:aa'')), world0)"
proof -
  have "(\<lambda>fd. sock0)(1 := sock0) = (\<lambda>fd :: nat. sock0)" by auto
  then show ?thesis
    by (simp add: w_recv_def world1_def recv_register_frame world0_def)
qed

lemma handle_registration_world0:
  "handle_registration fd peer_A sid (cps ''REGISTER:A:aa'') (world0\<lparr>w_clients := cs\<rparr>) =
     (Inr (Some (cps ''A'')),
      world0\<lparr>w_clients := AList.update (cps ''A'')
         \<lparr>session_id = sid, socket = fd, address = peer_A\<rparr> cs\<rparr>)"
proof -
  have "handle_registration fd peer_A sid (cps ''REGISTER:A:aa'') (world0\<lparr>w_clients := cs\<rparr>) =
     (Inr (Some (cps ''A'')),
      (world0\<lparr>w_clients := cs\<rparr>)\<lparr>w_clients := AList.update (cps ''A'')
         \<lparr>session_id = sid, socket = fd, address = peer_A\<rparr>
         (w_clients (world0\<lparr>w_clients := cs\<rparr>))\<rparr>)"
    by (rule registration_decision_table(5) [OF demo_row_facts(5) register_msg_A demo_row_facts(3)
          select_row_world0_clients])
      (simp_all add: demo_row_facts)
  then show ?thesis by simp
qed

theorem registered_entry_never_removed_witness:
  "handle_client 7 1 peer_A (cps ''s1'') (cps ''tt'') 9 world1 =
     (Running, world0\<lparr>w_clients := [entry_A (cps ''s1'') 1]\<rparr>) \<and>
   map_of (w_clients (world0\<lparr>w_clients := [entry_A (cps ''s1'') 1]\<rparr>)) (cps ''A'') \<noteq> None \<and>
   fst (send_command_to_client (cps ''A'') (cps ''whoami'')
         (world0\<lparr>w_clients := [entry_A (cps ''s1'') 1], w_socks := (\<lambda>fd. close sock0)\<rparr>)) \<noteq>
     (None, cps ''Client not found or not authenticated'')"
proof -
  have s: "startswith (cps ''REGISTER:A:aa'') MSG_REGISTER"
    by (simp add: startswith_def msg_consts)
  have r: "handle_registration 1 peer_A (cps ''s1'') (cps ''REGISTER:A:aa'') world0 =
      (Inr (Some (cps ''A'')), world0\<lparr>w_clients := [entry_A (cps ''s1'') 1]\<rparr>)"
    using handle_registration_world0 [of 1 "cps ''s1''" "[]"]
    by (simp add: world0_def entry_A_def)
  have n: "cps ''A'' \<noteq> []" by (simp add: cps_def)
  show ?thesis
    using registered_entry_never_removed [OF w_recv_world1 s r n, of 7 "cps ''tt''" 9 "cps ''whoami''"]
    by simp
qed



end
